theory Spec2Isabelle
  imports Main "HOL-Library.Word"
begin

section \<open>Error codes, enumerations and the device handle\<close>

text \<open>
  The error codes the LoRaWAN and P2P sources return (\<^verbatim>\<open>rak3172_errors.h\<close> is
  not among the sources; these are the codes the two translation units name).
\<close>

datatype RAK3172_Error_t =
    RAK3172_ERR_OK
  | RAK3172_ERR_INVALID_ARG
  | RAK3172_ERR_INVALID_STATE
  | RAK3172_ERR_NOT_CONNECTED
  | RAK3172_ERR_INVALID_RESPONSE
  | RAK3172_ERR_TIMEOUT
  | RAK3172_ERR_FAIL

text \<open>
  The C enumerations of \<^verbatim>\<open>rak3172_defs.h\<close>. The getters cast the result of
  \<^verbatim>\<open>std::stoi\<close> to the enumeration, so a value need not be one of the
  enumerators: the enumerations are integers with named values.
\<close>

type_synonym RAK3172_JoinMode_t = int

abbreviation (input) RAK_JOIN_ABP :: RAK3172_JoinMode_t where "RAK_JOIN_ABP \<equiv> 0"
abbreviation (input) RAK_JOIN_OTAA :: RAK3172_JoinMode_t where "RAK_JOIN_OTAA \<equiv> 1"

type_synonym RAK3172_Band_t = int

abbreviation (input) RAK_BAND_EU433 :: RAK3172_Band_t where "RAK_BAND_EU433 \<equiv> 0"
abbreviation (input) RAK_BAND_CN470 :: RAK3172_Band_t where "RAK_BAND_CN470 \<equiv> 1"
abbreviation (input) RAK_BAND_RU864 :: RAK3172_Band_t where "RAK_BAND_RU864 \<equiv> 2"
abbreviation (input) RAK_BAND_IN865 :: RAK3172_Band_t where "RAK_BAND_IN865 \<equiv> 3"
abbreviation (input) RAK_BAND_EU868 :: RAK3172_Band_t where "RAK_BAND_EU868 \<equiv> 4"
abbreviation (input) RAK_BAND_US915 :: RAK3172_Band_t where "RAK_BAND_US915 \<equiv> 5"
abbreviation (input) RAK_BAND_AU915 :: RAK3172_Band_t where "RAK_BAND_AU915 \<equiv> 6"
abbreviation (input) RAK_BAND_KR920 :: RAK3172_Band_t where "RAK_BAND_KR920 \<equiv> 7"
abbreviation (input) RAK_BAND_AS923 :: RAK3172_Band_t where "RAK_BAND_AS923 \<equiv> 8"

type_synonym RAK3172_DataRate_t = int

abbreviation (input) RAK_DR_7 :: RAK3172_DataRate_t where "RAK_DR_7 \<equiv> 7"

type_synonym RAK3172_SubBand_t = int

abbreviation (input) RAK_SUB_BAND_NONE :: RAK3172_SubBand_t where "RAK_SUB_BAND_NONE \<equiv> 0"
abbreviation (input) RAK_SUB_BAND_ALL :: RAK3172_SubBand_t where "RAK_SUB_BAND_ALL \<equiv> 1"
abbreviation (input) RAK_SUB_BAND_1 :: RAK3172_SubBand_t where "RAK_SUB_BAND_1 \<equiv> 2"
abbreviation (input) RAK_SUB_BAND_2 :: RAK3172_SubBand_t where "RAK_SUB_BAND_2 \<equiv> 3"
abbreviation (input) RAK_SUB_BAND_9 :: RAK3172_SubBand_t where "RAK_SUB_BAND_9 \<equiv> 10"
abbreviation (input) RAK_SUB_BAND_12 :: RAK3172_SubBand_t where "RAK_SUB_BAND_12 \<equiv> 13"

text \<open>
  The fields of \<^verbatim>\<open>RAK3172_t\<close> that the modelled functions read or write
  (\<^verbatim>\<open>LoRaWAN.Join\<close>, \<^verbatim>\<open>LoRaWAN.isJoined\<close>, \<^verbatim>\<open>P2P.isEncryptionEnabled\<close>).
  A device pointer is a \<open>RAK3172_t option\<close>, \<open>None\<close> being \<^verbatim>\<open>NULL\<close>.
\<close>

record RAK3172_t =
  LoRaWAN_Join :: RAK3172_JoinMode_t
  LoRaWAN_isJoined :: bool
  P2P_isEncryptionEnabled :: bool

text \<open>
  An output pointer is modelled by whether it is \<^verbatim>\<open>NULL\<close>; what a function stores
  through it is returned beside the error code (\<open>None\<close> when nothing was stored).
  An input buffer is a \<open>(nat \<Rightarrow> 8 word) option\<close>: the bytes behind the pointer by
  index, \<open>None\<close> being \<^verbatim>\<open>NULL\<close>.
\<close>

datatype out_ptr = NULL | Target

text \<open>
  How a call ends: it returns a value, a C++ exception leaves it
  (\<^verbatim>\<open>std::stoi\<close> and \<^verbatim>\<open>std::string::substr\<close> throw), it dereferences an invalid
  pointer (\<open>Fault\<close>), or it has not returned: a polling loop is still waiting when the
  supplied observations of its environment are used up, or a loop never ends (\<open>Pending\<close>).
\<close>

datatype exn = invalid_argument | out_of_range

datatype 'a outcome = Return 'a | Throw exn | Fault | Pending

section \<open>Strings and numbers of the C++ library\<close>

text \<open>\<^verbatim>\<open>std::string::npos\<close>; \<^verbatim>\<open>size_t\<close> has 32 bits on the ESP32.\<close>

definition npos :: nat where
  "npos = 2 ^ 32 - 1"

text \<open>
  \<^verbatim>\<open>s.find(pat, pos)\<close>: the first index from \<open>pos\<close> on where \<open>pat\<close> occurs, or
  \<open>npos\<close>. \<open>find_loop\<close> walks the rest of the string, \<open>i\<close> being the index of its head.
\<close>

fun find_loop :: "string \<Rightarrow> string \<Rightarrow> nat \<Rightarrow> nat" where
  "find_loop [] pat i = (if pat = [] then i else npos)"
| "find_loop (c # cs) pat i =
     (if take (length pat) (c # cs) = pat then i else find_loop cs pat (i + 1))"

definition str_find :: "string \<Rightarrow> string \<Rightarrow> nat \<Rightarrow> nat" where
  "str_find s pat pos = (if length s < pos then npos else find_loop (drop pos s) pat pos)"

text \<open>
  \<^verbatim>\<open>s.find_last_of(cs)\<close>: the last index holding one of the characters \<open>cs\<close>, or
  \<open>npos\<close>. \<open>last_of_loop\<close> keeps in \<open>r\<close> the last match before index \<open>i\<close>.
\<close>

fun last_of_loop :: "string \<Rightarrow> string \<Rightarrow> nat \<Rightarrow> nat \<Rightarrow> nat" where
  "last_of_loop [] cs i r = r"
| "last_of_loop (c # s) cs i r = last_of_loop s cs (i + 1) (if c \<in> set cs then i else r)"

definition str_find_last_of :: "string \<Rightarrow> string \<Rightarrow> nat" where
  "str_find_last_of s cs = last_of_loop s cs 0 npos"

text \<open>\<^verbatim>\<open>s.substr(pos, n)\<close> throws \<^verbatim>\<open>std::out_of_range\<close> when \<open>pos\<close> is past the end.\<close>

definition substr :: "string \<Rightarrow> nat \<Rightarrow> nat \<Rightarrow> exn + string" where
  "substr s pos n = (if length s < pos then Inl out_of_range else Inr (take n (drop pos s)))"

text \<open>Conversions between \<^verbatim>\<open>int\<close> and \<^verbatim>\<open>size_t\<close> (both 32 bits, two's complement).\<close>

definition to_size_t :: "int \<Rightarrow> nat" where
  "to_size_t i = nat (i mod 2 ^ 32)"

definition to_int :: "nat \<Rightarrow> int" where
  "to_int n = (if n mod 2 ^ 32 < 2 ^ 31 then int (n mod 2 ^ 32) else int (n mod 2 ^ 32) - 2 ^ 32)"

text \<open>\<^verbatim>\<open>std::to_string\<close> of an \<^verbatim>\<open>int\<close> (every call in the sources promotes to it).\<close>

fun dec_of_nat :: "nat \<Rightarrow> string" where
  "dec_of_nat n =
     (if n < 10 then [''0123456789'' ! n]
      else dec_of_nat (n div 10) @ [''0123456789'' ! (n mod 10)])"

declare dec_of_nat.simps [simp del]

definition to_string :: "int \<Rightarrow> string" where
  "to_string i = (if i < 0 then CHR ''-'' # dec_of_nat (nat (- i)) else dec_of_nat (nat i))"

text \<open>
  \<^verbatim>\<open>std::stoi(s)\<close>, base 10: skips white space, reads an optional sign and the longest
  run of digits, ignores what follows; throws \<^verbatim>\<open>std::invalid_argument\<close> when there is
  no digit and \<^verbatim>\<open>std::out_of_range\<close> when the value does not fit a 32-bit \<^verbatim>\<open>int\<close>.
\<close>

definition isspace :: "char \<Rightarrow> bool" where
  "isspace c = (c \<in> set [CHR '' '', CHR 0x09, CHR 0x0A, CHR 0x0B, CHR 0x0C, CHR 0x0D])"

definition isdigit :: "char \<Rightarrow> bool" where
  "isdigit c = (c \<in> set ''0123456789'')"

definition digit_val :: "char \<Rightarrow> nat" where
  "digit_val c = (of_char c - 48)"

definition stoi :: "string \<Rightarrow> exn + int" where
  "stoi s =
     (let s1 = dropWhile isspace s;
          neg = (case s1 of [] \<Rightarrow> False | c # r \<Rightarrow> c = CHR ''-'');
          s2 = (case s1 of [] \<Rightarrow> [] | c # r \<Rightarrow> if c = CHR ''-'' \<or> c = CHR ''+'' then r else s1);
          ds = takeWhile isdigit s2;
          a = int (foldl (\<lambda>acc c. 10 * acc + digit_val c) 0 ds);
          v = (if neg then - a else a)
      in if ds = [] then Inl invalid_argument
         else if v < - (2 ^ 31) \<or> 2 ^ 31 - 1 < v then Inl out_of_range
         else Inr v)"

text \<open>
  \<^verbatim>\<open>sprintf\<close> with \<^verbatim>\<open>%0wX\<close> (upper) or \<^verbatim>\<open>%0wx\<close> (lower) of an unsigned value: its
  hexadecimal digits, padded with zeros on the left to at least \<open>w\<close> characters.
\<close>

definition hexdigit :: "bool \<Rightarrow> nat \<Rightarrow> char" where
  "hexdigit upper d = (if upper then ''0123456789ABCDEF'' else ''0123456789abcdef'') ! d"

fun hex_of_nat :: "bool \<Rightarrow> nat \<Rightarrow> string" where
  "hex_of_nat upper n =
     (if n < 16 then [hexdigit upper n]
      else hex_of_nat upper (n div 16) @ [hexdigit upper (n mod 16)])"

declare hex_of_nat.simps [simp del]

definition sprintf_hex :: "bool \<Rightarrow> nat \<Rightarrow> nat \<Rightarrow> string" where
  "sprintf_hex upper w n =
     replicate (w - length (hex_of_nat upper n)) (CHR ''0'') @ hex_of_nat upper n"

text \<open>
  The encoding loops of the sources,
  \<^verbatim>\<open>for(uint8_t i = 0; i < n; i++) { sprintf(Buffer, "%02X", p[i]); S += std::string(Buffer); }\<close>:
  the string \<open>S\<close> after \<open>n\<close> rounds.
\<close>

primrec encode_loop :: "bool \<Rightarrow> (nat \<Rightarrow> 8 word) \<Rightarrow> nat \<Rightarrow> string" where
  "encode_loop upper p 0 = []"
| "encode_loop upper p (Suc i) = encode_loop upper p i @ sprintf_hex upper 2 (unat (p i))"

section \<open>The Command Engine\<close>

text \<open>
  What the driver does that a caller or the module can observe: a command line handed to
  \<^verbatim>\<open>RAK3172_SendCommand\<close> for writing to the transport, and a call of the
  caller-supplied wait hook.
\<close>

datatype event = Sent string | Waited

type_synonym trace = "event list"

text \<open>
  The radio module and the receive task behind the Command Engine: for the events so far
  and the command written, the error code of the round trip, the captured value and the
  status text.
\<close>

type_synonym module = "trace \<Rightarrow> string \<Rightarrow> RAK3172_Error_t \<times> string \<times> string"

text \<open>
  Modelled from the spec: \<^verbatim>\<open>RAK3172_SendCommand(p_Device, Command, p_Value, p_Status)\<close>
  is defined in \<^verbatim>\<open>rak3172.cpp\<close>, which is not among the sources. As the spec has it
  (4.2), a \<^verbatim>\<open>NULL\<close> device is an invalid argument caught before any I/O; otherwise the
  command is written to the transport and the call returns the outcome of the round
  trip: a status code, the captured value and the status text.
\<close>

definition RAK3172_SendCommand ::
  "module \<Rightarrow> RAK3172_t option \<Rightarrow> string \<Rightarrow> trace \<Rightarrow> (RAK3172_Error_t \<times> string \<times> string) \<times> trace" where
  "RAK3172_SendCommand m p_Device Command tr =
     (case p_Device of
        None \<Rightarrow> ((RAK3172_ERR_INVALID_ARG, [], []), tr)
      | Some d \<Rightarrow> (m tr Command, tr @ [Sent Command]))"

text \<open>The call with both capture targets \<^verbatim>\<open>NULL\<close>: only the error code comes back.\<close>

definition send_cmd :: "module \<Rightarrow> RAK3172_t option \<Rightarrow> string \<Rightarrow> trace \<Rightarrow> RAK3172_Error_t \<times> trace" where
  "send_cmd m p_Device Command tr =
     (case RAK3172_SendCommand m p_Device Command tr of ((Error, Value, Status), tr1) \<Rightarrow> (Error, tr1))"

text \<open>
  The clock: \<^verbatim>\<open>esp_timer_get_time()\<close> in microseconds. A wait loop stores
  \<^verbatim>\<open>esp_timer_get_time() / 1000ULL\<close> in a \<^verbatim>\<open>uint32_t\<close> and later subtracts it from
  a fresh reading in 64-bit unsigned arithmetic.
\<close>

definition start_ms :: "nat \<Rightarrow> nat" where
  "start_ms t = (t div 1000) mod 2 ^ 32"

definition elapsed_ms :: "nat \<Rightarrow> nat \<Rightarrow> nat" where
  "elapsed_ms t Now = nat ((int (t div 1000) - int Now) mod 2 ^ 64)"

section \<open>Key provisioning\<close>

definition RAK3172_LoRaWAN_SetOTAAKeys ::
  "module \<Rightarrow> RAK3172_t option \<Rightarrow> (nat \<Rightarrow> 8 word) option \<Rightarrow> (nat \<Rightarrow> 8 word) option \<Rightarrow>
   (nat \<Rightarrow> 8 word) option \<Rightarrow> trace \<Rightarrow> RAK3172_Error_t \<times> trace" where
  "RAK3172_LoRaWAN_SetOTAAKeys m p_Device p_DEVEUI p_APPEUI p_APPKEY tr =
     (case (p_Device, p_DEVEUI, p_APPEUI, p_APPKEY) of
        (Some d, Some DEVEUI, Some APPEUI, Some APPKEY) \<Rightarrow>
          if LoRaWAN_Join d \<noteq> RAK_JOIN_OTAA then (RAK3172_ERR_INVALID_STATE, tr)
          else
            let AppEUIString = encode_loop True APPEUI 8;
                DevEUIString = encode_loop True DEVEUI 8;
                AppKeyString = encode_loop True APPKEY 16
            in (case send_cmd m p_Device (''AT+DEVEUI='' @ DevEUIString) tr of
                  (Error1, tr1) \<Rightarrow>
                    if Error1 \<noteq> RAK3172_ERR_OK then (Error1, tr1)
                    else (case send_cmd m p_Device (''AT+APPEUI='' @ AppEUIString) tr1 of
                            (Error2, tr2) \<Rightarrow>
                              if Error2 \<noteq> RAK3172_ERR_OK then (Error2, tr2)
                              else send_cmd m p_Device (''AT+APPKEY='' @ AppKeyString) tr2))
      | _ \<Rightarrow> (RAK3172_ERR_INVALID_ARG, tr))"

definition RAK3172_LoRaWAN_SetABPKeys ::
  "module \<Rightarrow> RAK3172_t option \<Rightarrow> (nat \<Rightarrow> 8 word) option \<Rightarrow> (nat \<Rightarrow> 8 word) option \<Rightarrow>
   (nat \<Rightarrow> 8 word) option \<Rightarrow> trace \<Rightarrow> RAK3172_Error_t \<times> trace" where
  "RAK3172_LoRaWAN_SetABPKeys m p_Device p_APPSKEY p_NWKSKEY p_DEVADDR tr =
     (case (p_Device, p_APPSKEY, p_NWKSKEY, p_DEVADDR) of
        (Some d, Some APPSKEY, Some NWKSKEY, Some DEVADDR) \<Rightarrow>
          if LoRaWAN_Join d \<noteq> RAK_JOIN_ABP then (RAK3172_ERR_INVALID_STATE, tr)
          else
            let AppSKEYString = encode_loop True APPSKEY 16;
                NwkSKEYString = encode_loop True NWKSKEY 16;
                DevADDRString = encode_loop True DEVADDR 4
            in (case send_cmd m p_Device (''AT+APPSKEY='' @ AppSKEYString) tr of
                  (Error1, tr1) \<Rightarrow>
                    if Error1 \<noteq> RAK3172_ERR_OK then (Error1, tr1)
                    else (case send_cmd m p_Device (''AT+NWKSKEY='' @ NwkSKEYString) tr1 of
                            (Error2, tr2) \<Rightarrow>
                              if Error2 \<noteq> RAK3172_ERR_OK then (Error2, tr2)
                              else send_cmd m p_Device (''AT+DEVADDR='' @ DevADDRString) tr2))
      | _ \<Rightarrow> (RAK3172_ERR_INVALID_ARG, tr))"

section \<open>Join\<close>

definition RAK3172_LoRaWAN_StopJoin :: "module \<Rightarrow> RAK3172_t option \<Rightarrow> trace \<Rightarrow> RAK3172_Error_t \<times> trace" where
  "RAK3172_LoRaWAN_StopJoin m p_Device tr = send_cmd m p_Device ''AT+JOIN=0:0:7:0'' tr"

text \<open>
  The \<^verbatim>\<open>do { ... } while(p_Device->LoRaWAN.isJoined == false)\<close> loop of
  \<^verbatim>\<open>RAK3172_LoRaWAN_StartJoin\<close>. The receive task sets the joined flag behind the
  loop's back, so each round is given what it observes: the clock reading of its timeout
  test and the value of the flag at its end.
\<close>

fun join_loop ::
  "module \<Rightarrow> RAK3172_t option \<Rightarrow> 32 word \<Rightarrow> nat \<Rightarrow> (nat \<times> bool) list \<Rightarrow> trace \<Rightarrow>
   RAK3172_Error_t outcome \<times> trace" where
  "join_loop m p_Device Timeout TimeNow [] tr = (Pending, tr)"
| "join_loop m p_Device Timeout TimeNow ((t, isJoined) # obs) tr =
     (if 0 < Timeout \<and> unat Timeout * 1000 \<le> elapsed_ms t TimeNow
      then (Return RAK3172_ERR_TIMEOUT, snd (RAK3172_LoRaWAN_StopJoin m p_Device tr))
      else if isJoined = False then join_loop m p_Device Timeout TimeNow obs tr
      else (Return RAK3172_ERR_OK, tr))"

text \<open>
  \<open>env\<close> is the clock reading before the loop and the observations of its rounds.
  The parameter \<open>on_Wait\<close> (is the hook non-\<^verbatim>\<open>NULL\<close>) is not used by the body.
\<close>

definition RAK3172_LoRaWAN_StartJoin ::
  "module \<Rightarrow> RAK3172_t option \<Rightarrow> 32 word \<Rightarrow> 8 word \<Rightarrow> bool \<Rightarrow> 8 word \<Rightarrow> bool \<Rightarrow>
   nat \<times> (nat \<times> bool) list \<Rightarrow> trace \<Rightarrow> RAK3172_Error_t outcome \<times> trace" where
  "RAK3172_LoRaWAN_StartJoin m p_Device Timeout Attempts EnableAutoJoin Interval on_Wait env tr =
     (case p_Device of
        None \<Rightarrow> (Return RAK3172_ERR_INVALID_ARG, tr)
      | Some d \<Rightarrow>
          if Attempts = 0 then (Return RAK3172_ERR_INVALID_ARG, tr)
          else if LoRaWAN_isJoined d then (Return RAK3172_ERR_OK, tr)
          else (case send_cmd m p_Device
                       (''AT+JOIN=1:'' @ to_string (of_bool EnableAutoJoin) @ '':'' @
                        to_string (uint Interval) @ '':'' @ to_string (uint Attempts)) tr of
                  (Error, tr1) \<Rightarrow>
                    if Error \<noteq> RAK3172_ERR_OK then (Return Error, tr1)
                    else join_loop m p_Device Timeout (start_ms (fst env)) (snd env) tr1))"

section \<open>Transmit\<close>

definition RAK3172_LoRaWAN_SetConfirmation ::
  "module \<Rightarrow> RAK3172_t option \<Rightarrow> bool \<Rightarrow> trace \<Rightarrow> RAK3172_Error_t \<times> trace" where
  "RAK3172_LoRaWAN_SetConfirmation m p_Device Enable tr =
     send_cmd m p_Device (''AT+CFM='' @ to_string (of_bool Enable)) tr"

text \<open>
  The confirmation loop of \<^verbatim>\<open>RAK3172_LoRaWAN_Transmit\<close>. Each round is given what
  \<^verbatim>\<open>xQueueReceive\<close> delivers (a line, or \<open>None\<close> when it times out) and the clock
  reading of its timeout test. The product \<^verbatim>\<open>Timeout * 1000UL\<close> is computed in
  32 bits (\<^verbatim>\<open>unsigned long\<close> on the ESP32).
\<close>

fun confirm_loop ::
  "bool \<Rightarrow> 32 word \<Rightarrow> nat \<Rightarrow> (string option \<times> nat) list \<Rightarrow> trace \<Rightarrow> RAK3172_Error_t outcome \<times> trace" where
  "confirm_loop Wait Timeout Now [] tr = (Pending, tr)"
| "confirm_loop Wait Timeout Now ((q, t) # obs) tr =
     (let tr1 = (if Wait then tr @ [Waited] else tr);
          failed = (case q of None \<Rightarrow> False | Some Line \<Rightarrow> str_find Line ''SEND CONFIRMED FAILED'' 0 \<noteq> npos);
          ok = (case q of None \<Rightarrow> False | Some Line \<Rightarrow> str_find Line ''SEND CONFIRMED OK'' 0 \<noteq> npos)
      in if failed then (Return RAK3172_ERR_INVALID_RESPONSE, tr1)
         else if ok then (Return RAK3172_ERR_OK, tr1)
         else if 0 < Timeout \<and> unat (Timeout * 1000) \<le> elapsed_ms t Now then (Return RAK3172_ERR_TIMEOUT, tr1)
         else confirm_loop Wait Timeout Now obs tr1)"

text \<open>
  The seven-argument \<^verbatim>\<open>RAK3172_LoRaWAN_Transmit\<close> (the four-argument overload calls it
  with \<^verbatim>\<open>Timeout = 0\<close>). \<open>Wait\<close> says whether the hook is non-\<^verbatim>\<open>NULL\<close>; \<open>env\<close> is the
  clock reading before the confirmation loop and the observations of its rounds.
\<close>

definition RAK3172_LoRaWAN_Transmit ::
  "module \<Rightarrow> RAK3172_t option \<Rightarrow> 8 word \<Rightarrow> (nat \<Rightarrow> 8 word) option \<Rightarrow> 8 word \<Rightarrow> 32 word \<Rightarrow> bool \<Rightarrow> bool \<Rightarrow>
   nat \<times> (string option \<times> nat) list \<Rightarrow> trace \<Rightarrow> RAK3172_Error_t outcome \<times> trace" where
  "RAK3172_LoRaWAN_Transmit m p_Device Port p_Buffer Length Timeout Confirmed Wait env tr =
     (case p_Device of
        None \<Rightarrow> (Return RAK3172_ERR_INVALID_ARG, tr)
      | Some d \<Rightarrow>
          if (p_Buffer = None \<and> Length = 0) \<or> Port = 0 then (Return RAK3172_ERR_INVALID_ARG, tr)
          else if LoRaWAN_isJoined d = False then (Return RAK3172_ERR_NOT_CONNECTED, tr)
          else if Length = 0 then (Return RAK3172_ERR_OK, tr)
          else (case p_Buffer of
                  None \<Rightarrow> (Fault, tr)
                | Some Buffer \<Rightarrow>
                    let Payload = encode_loop False Buffer (unat Length) in
                    (case RAK3172_LoRaWAN_SetConfirmation m p_Device Confirmed tr of
                       (Error1, tr1) \<Rightarrow>
                         if Error1 \<noteq> RAK3172_ERR_OK then (Return Error1, tr1)
                         else (case RAK3172_SendCommand m p_Device
                                      (''AT+SEND='' @ to_string (uint Port) @ '':'' @ Payload) tr1 of
                                 ((Error2, Value, Status), tr2) \<Rightarrow>
                                   if Error2 \<noteq> RAK3172_ERR_OK then (Return Error2, tr2)
                                   else if str_find Status ''AT_BUSY_ERROR'' 0 \<noteq> npos
                                   then (Return RAK3172_ERR_INVALID_RESPONSE, tr2)
                                   else if Confirmed
                                   then confirm_loop Wait Timeout (start_ms (fst env)) (snd env) tr2
                                   else (Return RAK3172_ERR_OK, tr2)))))"

section \<open>Receive\<close>

text \<open>
  What \<^verbatim>\<open>RAK3172_LoRaWAN_Receive\<close> does with a line that holds the marker
  \<^verbatim>\<open>RX\<close>: the RSSI is read at offset 7 after the first comma, the SNR at offset 6 after
  the last comma. \<open>rssi\<close> and \<open>snr\<close> are the values stored so far.
\<close>

definition rx_metadata ::
  "string \<Rightarrow> out_ptr \<Rightarrow> out_ptr \<Rightarrow> int option \<Rightarrow> int option \<Rightarrow> exn + (int option \<times> int option)" where
  "rx_metadata Line p_RSSI p_SNR rssi snr =
     (if str_find Line ''RX'' 0 \<noteq> npos then
        (case (if p_RSSI \<noteq> NULL then
                 (let Index = to_int (str_find Line '','' 0) in
                  case substr Line (to_size_t (Index + 7))
                         ((to_size_t Index + str_find Line '','' (to_size_t Index) + 1) mod 2 ^ 32) of
                    Inl e \<Rightarrow> Inl e
                  | Inr Dummy \<Rightarrow> (case stoi Dummy of Inl e \<Rightarrow> Inl e | Inr v \<Rightarrow> Inr (Some v)))
               else Inr rssi) of
           Inl e \<Rightarrow> Inl e
         | Inr rssi1 \<Rightarrow>
             (case (if p_SNR \<noteq> NULL then
                      (let Index = to_int (str_find_last_of Line '','') in
                       case substr Line (to_size_t (Index + 6)) (to_size_t (int (length Line) - 1)) of
                         Inl e \<Rightarrow> Inl e
                       | Inr Dummy \<Rightarrow> (case stoi Dummy of Inl e \<Rightarrow> Inl e | Inr v \<Rightarrow> Inr (Some v)))
                    else Inr snr) of
                Inl e \<Rightarrow> Inl e
              | Inr snr1 \<Rightarrow> Inr (rssi1, snr1)))
      else Inr (rssi, snr))"

text \<open>
  The receive loop. Each round is given what \<^verbatim>\<open>xQueueReceive\<close> delivers and the
  clock reading of its timeout test. When the queue times out the loop runs
  \<^verbatim>\<open>delete Line\<close> on a pointer that was never set (\<open>Fault\<close>). The result is the error
  code with the payload, RSSI and SNR stored through the output pointers.
\<close>

fun receive_loop ::
  "out_ptr \<Rightarrow> out_ptr \<Rightarrow> 32 word \<Rightarrow> nat \<Rightarrow> (string option \<times> nat) list \<Rightarrow> int option \<Rightarrow> int option \<Rightarrow>
   (RAK3172_Error_t \<times> string option \<times> int option \<times> int option) outcome" where
  "receive_loop p_RSSI p_SNR Timeout Now [] rssi snr = Pending"
| "receive_loop p_RSSI p_SNR Timeout Now ((None, t) # obs) rssi snr = Fault"
| "receive_loop p_RSSI p_SNR Timeout Now ((Some Line, t) # obs) rssi snr =
     (case rx_metadata Line p_RSSI p_SNR rssi snr of
        Inl e \<Rightarrow> Throw e
      | Inr (rssi1, snr1) \<Rightarrow>
          if str_find Line ''UNICAST'' 0 \<noteq> npos then
            (case substr Line ((str_find_last_of Line '':'' + 1) mod 2 ^ 32) (length Line) of
               Inl e \<Rightarrow> Throw e
             | Inr Payload \<Rightarrow> Return (RAK3172_ERR_OK, Some Payload, rssi1, snr1))
          else if 0 < Timeout \<and> unat Timeout \<le> elapsed_ms t Now div 1000
          then Return (RAK3172_ERR_TIMEOUT, None, rssi1, snr1)
          else receive_loop p_RSSI p_SNR Timeout Now obs rssi1 snr1)"

definition RAK3172_LoRaWAN_Receive ::
  "RAK3172_t option \<Rightarrow> out_ptr \<Rightarrow> out_ptr \<Rightarrow> out_ptr \<Rightarrow> 32 word \<Rightarrow> nat \<times> (string option \<times> nat) list \<Rightarrow>
   (RAK3172_Error_t \<times> string option \<times> int option \<times> int option) outcome" where
  "RAK3172_LoRaWAN_Receive p_Device p_Payload p_RSSI p_SNR Timeout env =
     (case p_Device of
        None \<Rightarrow> Return (RAK3172_ERR_INVALID_ARG, None, None, None)
      | Some d \<Rightarrow>
          if p_Payload = NULL \<or> Timeout \<le> 1 then Return (RAK3172_ERR_INVALID_ARG, None, None, None)
          else if LoRaWAN_isJoined d = False then Return (RAK3172_ERR_NOT_CONNECTED, None, None, None)
          else receive_loop p_RSSI p_SNR Timeout (start_ms (fst env)) (snd env) None None)"

section \<open>P2P encryption\<close>

text \<open>
  Returns the error code, the device handle after the call and the trace. The flag is
  written only after the first command returned \<^verbatim>\<open>RAK3172_ERR_OK\<close>, which the
  Command Engine never does for a \<^verbatim>\<open>NULL\<close> device.
\<close>

definition RAK3172_P2P_EnableEncryption ::
  "module \<Rightarrow> RAK3172_t option \<Rightarrow> (nat \<Rightarrow> 8 word) option \<Rightarrow> trace \<Rightarrow>
   RAK3172_Error_t \<times> RAK3172_t option \<times> trace" where
  "RAK3172_P2P_EnableEncryption m p_Device p_Key tr =
     (case p_Key of
        None \<Rightarrow> (RAK3172_ERR_INVALID_ARG, p_Device, tr)
      | Some Key_bytes \<Rightarrow>
          (case send_cmd m p_Device (''AT+ENCRY='' @ to_string (of_bool True)) tr of
             (Error, tr1) \<Rightarrow>
               if Error \<noteq> RAK3172_ERR_OK then (Error, p_Device, tr1)
               else
                 let p_Device1 = map_option (\<lambda>d. d\<lparr>P2P_isEncryptionEnabled := True\<rparr>) p_Device;
                     Key = encode_loop False Key_bytes 8
                 in (case send_cmd m p_Device1 (''AT+ENCKEY='' @ Key) tr1 of
                       (Error2, tr2) \<Rightarrow> (Error2, p_Device1, tr2))))"

section \<open>Accessors\<close>

definition RAK3172_LoRaWAN_SetRetries ::
  "module \<Rightarrow> RAK3172_t option \<Rightarrow> 8 word \<Rightarrow> trace \<Rightarrow> RAK3172_Error_t \<times> trace" where
  "RAK3172_LoRaWAN_SetRetries m p_Device Retries tr =
     (if 7 < Retries then (RAK3172_ERR_INVALID_ARG, tr)
      else
        let Enable = (0 < Retries) in
        (case send_cmd m p_Device (''AT+CFM='' @ to_string (of_bool Enable)) tr of
           (Error, tr1) \<Rightarrow>
             if Error \<noteq> RAK3172_ERR_OK then (Error, tr1)
             else send_cmd m p_Device (''AT+RETY='' @ to_string (uint Retries)) tr1))"

definition RAK3172_LoRaWAN_GetRetries ::
  "module \<Rightarrow> RAK3172_t option \<Rightarrow> out_ptr \<Rightarrow> trace \<Rightarrow> (RAK3172_Error_t \<times> 8 word option) outcome \<times> trace" where
  "RAK3172_LoRaWAN_GetRetries m p_Device p_Retries tr =
     (if p_Retries = NULL then (Return (RAK3172_ERR_INVALID_ARG, None), tr)
      else (case RAK3172_SendCommand m p_Device ''AT+RETY=?'' tr of
              ((Error, Value, Status), tr1) \<Rightarrow>
                if Error \<noteq> RAK3172_ERR_OK then (Return (Error, None), tr1)
                else (case stoi Value of
                        Inl e \<Rightarrow> (Throw e, tr1)
                      | Inr v \<Rightarrow> (Return (RAK3172_ERR_OK, Some (word_of_int v)), tr1))))"

definition RAK3172_LoRaWAN_SetPNM ::
  "module \<Rightarrow> RAK3172_t option \<Rightarrow> bool \<Rightarrow> trace \<Rightarrow> RAK3172_Error_t \<times> trace" where
  "RAK3172_LoRaWAN_SetPNM m p_Device Enable tr =
     send_cmd m p_Device (''AT+PNM='' @ to_string (of_bool Enable)) tr"

definition RAK3172_LoRaWAN_GetPNM ::
  "module \<Rightarrow> RAK3172_t option \<Rightarrow> out_ptr \<Rightarrow> trace \<Rightarrow> (RAK3172_Error_t \<times> bool option) outcome \<times> trace" where
  "RAK3172_LoRaWAN_GetPNM m p_Device p_Enable tr =
     (if p_Enable = NULL then (Return (RAK3172_ERR_INVALID_ARG, None), tr)
      else (case RAK3172_SendCommand m p_Device ''AT+PNM=?'' tr of
              ((Error, Value, Status), tr1) \<Rightarrow>
                if Error \<noteq> RAK3172_ERR_OK then (Return (Error, None), tr1)
                else (case stoi Value of
                        Inl e \<Rightarrow> (Throw e, tr1)
                      | Inr v \<Rightarrow> (Return (RAK3172_ERR_OK, Some (v \<noteq> 0)), tr1))))"

definition RAK3172_LoRaWAN_GetConfirmation ::
  "module \<Rightarrow> RAK3172_t option \<Rightarrow> out_ptr \<Rightarrow> trace \<Rightarrow> (RAK3172_Error_t \<times> bool option) outcome \<times> trace" where
  "RAK3172_LoRaWAN_GetConfirmation m p_Device p_Enable tr =
     (if p_Enable = NULL then (Return (RAK3172_ERR_INVALID_ARG, None), tr)
      else (case RAK3172_SendCommand m p_Device ''AT+CFM=?'' tr of
              ((Error, Value, Status), tr1) \<Rightarrow>
                if Error \<noteq> RAK3172_ERR_OK then (Return (Error, None), tr1)
                else (case stoi Value of
                        Inl e \<Rightarrow> (Throw e, tr1)
                      | Inr v \<Rightarrow> (Return (RAK3172_ERR_OK, Some (v \<noteq> 0)), tr1))))"

text \<open>\<^verbatim>\<open>(uint8_t)Band\<close> before \<^verbatim>\<open>std::to_string\<close>: the band modulo 256.\<close>

definition RAK3172_LoRaWAN_SetBand ::
  "module \<Rightarrow> RAK3172_t option \<Rightarrow> RAK3172_Band_t \<Rightarrow> trace \<Rightarrow> RAK3172_Error_t \<times> trace" where
  "RAK3172_LoRaWAN_SetBand m p_Device Band tr =
     send_cmd m p_Device (''AT+BAND='' @ to_string (uint (word_of_int Band :: 8 word))) tr"

definition RAK3172_LoRaWAN_GetBand ::
  "module \<Rightarrow> RAK3172_t option \<Rightarrow> out_ptr \<Rightarrow> trace \<Rightarrow> (RAK3172_Error_t \<times> RAK3172_Band_t option) outcome \<times> trace" where
  "RAK3172_LoRaWAN_GetBand m p_Device p_Band tr =
     (if p_Band = NULL then (Return (RAK3172_ERR_INVALID_ARG, None), tr)
      else (case RAK3172_SendCommand m p_Device ''AT+BAND=?'' tr of
              ((Error, Value, Status), tr1) \<Rightarrow>
                if Error \<noteq> RAK3172_ERR_OK then (Return (Error, None), tr1)
                else (case stoi Value of
                        Inl e \<Rightarrow> (Throw e, tr1)
                      | Inr v \<Rightarrow> (Return (RAK3172_ERR_OK, Some v), tr1))))"

text \<open>
  \<^verbatim>\<open>RAK3172_LoRaWAN_SetSubBand\<close>: \<open>Band\<close> is an enumerator of
  \<^verbatim>\<open>RAK3172_SubBand_t\<close> (0 to 13), so the shift count \<^verbatim>\<open>Band - 2\<close> is between 0 and 11
  where it is used. The band is read into a local variable, so the getter's pointer is
  never \<^verbatim>\<open>NULL\<close>.
\<close>

definition RAK3172_LoRaWAN_SetSubBand ::
  "module \<Rightarrow> RAK3172_t option \<Rightarrow> RAK3172_SubBand_t \<Rightarrow> trace \<Rightarrow> RAK3172_Error_t outcome \<times> trace" where
  "RAK3172_LoRaWAN_SetSubBand m p_Device Band tr =
     (if Band = RAK_SUB_BAND_NONE then (Return RAK3172_ERR_OK, tr)
      else (case RAK3172_LoRaWAN_GetBand m p_Device Target tr of
              (Return (RAK3172_ERR_OK, Some Dummy), tr1) \<Rightarrow>
                if Dummy = RAK_BAND_US915 \<or> Dummy = RAK_BAND_AU915 \<or> Dummy = RAK_BAND_CN470 then
                  (if RAK_SUB_BAND_9 < Band \<and> Dummy \<noteq> RAK_BAND_CN470 then (Return RAK3172_ERR_INVALID_ARG, tr1)
                   else if Band = RAK_SUB_BAND_ALL then
                     (case send_cmd m p_Device ''AT+MASK=0000'' tr1 of (Error, tr2) \<Rightarrow> (Return Error, tr2))
                   else
                     let Mask = push_bit (nat (Band - 2)) (1 :: 32 word);
                         Temp = sprintf_hex True 4 (unat Mask)
                     in (case send_cmd m p_Device (''AT+MASK='' @ Temp) tr1 of
                           (Error, tr2) \<Rightarrow> (Return Error, tr2)))
                else (Return RAK3172_ERR_FAIL, tr1)
            | (Return (Error, _), tr1) \<Rightarrow> (Return Error, tr1)
            | (Throw e, tr1) \<Rightarrow> (Throw e, tr1)
            | (Fault, tr1) \<Rightarrow> (Fault, tr1)
            | (Pending, tr1) \<Rightarrow> (Pending, tr1)))"

text \<open>
  The loop \<^verbatim>\<open>while(Mask != 1) { Mask >>= 1; Shifts++; }\<close> of
  \<^verbatim>\<open>RAK3172_LoRaWAN_GetSubBand\<close>; it does not end for a mask of 0.
\<close>

partial_function (option) shift_loop :: "32 word \<Rightarrow> 8 word \<Rightarrow> (32 word \<times> 8 word) option" where
  "shift_loop Mask Shifts =
     (if Mask \<noteq> 1 then shift_loop (drop_bit 1 Mask) (Shifts + 1) else Some (Mask, Shifts))"

declare shift_loop.simps [code]

definition RAK3172_LoRaWAN_GetSubBand ::
  "module \<Rightarrow> RAK3172_t option \<Rightarrow> out_ptr \<Rightarrow> trace \<Rightarrow>
   (RAK3172_Error_t \<times> RAK3172_SubBand_t option) outcome \<times> trace" where
  "RAK3172_LoRaWAN_GetSubBand m p_Device p_Band tr =
     (if p_Band = NULL then (Return (RAK3172_ERR_INVALID_ARG, None), tr)
      else (case RAK3172_LoRaWAN_GetBand m p_Device Target tr of
              (Return (RAK3172_ERR_OK, Some Dummy), tr1) \<Rightarrow>
                if Dummy \<noteq> RAK_BAND_US915 \<and> Dummy \<noteq> RAK_BAND_AU915 \<and> Dummy \<noteq> RAK_BAND_CN470
                then (Return (RAK3172_ERR_OK, Some RAK_SUB_BAND_NONE), tr1)
                else (case RAK3172_SendCommand m p_Device ''AT+MASK=?'' tr1 of
                        ((Error, Value, Status), tr2) \<Rightarrow>
                          if Error \<noteq> RAK3172_ERR_OK then (Return (Error, None), tr2)
                          else (case stoi Value of
                                  Inl e \<Rightarrow> (Throw e, tr2)
                                | Inr v \<Rightarrow>
                                    let Mask = (word_of_int v :: 32 word) in
                                    if Mask = 0 then (Return (RAK3172_ERR_OK, Some RAK_SUB_BAND_ALL), tr2)
                                    else (case shift_loop Mask 1 of
                                            None \<Rightarrow> (Pending, tr2)
                                          | Some (Mask1, Shifts) \<Rightarrow>
                                              (Return (RAK3172_ERR_OK, Some (uint Shifts + 2)), tr2))))
            | (Return (Error, _), tr1) \<Rightarrow> (Return (Error, None), tr1)
            | (Throw e, tr1) \<Rightarrow> (Throw e, tr1)
            | (Fault, tr1) \<Rightarrow> (Fault, tr1)
            | (Pending, tr1) \<Rightarrow> (Pending, tr1)))"

definition RAK3172_LoRaWAN_SetTxPwr ::
  "module \<Rightarrow> RAK3172_t option \<Rightarrow> 8 word \<Rightarrow> trace \<Rightarrow> RAK3172_Error_t outcome \<times> trace" where
  "RAK3172_LoRaWAN_SetTxPwr m p_Device TxPwr tr =
     (case RAK3172_LoRaWAN_GetBand m p_Device Target tr of
        (Return (RAK3172_ERR_OK, Some Band), tr1) \<Rightarrow>
          let TxPwrIndex =
                (if Band = RAK_BAND_EU868 then
                   (if 16 \<le> uint TxPwr then 0
                    else if uint TxPwr < 16 - 14 then 10
                    else (word_of_int ((16 - uint TxPwr) div 2) :: 8 word))
                 else if Band = RAK_BAND_US915 then
                   (if 30 \<le> uint TxPwr then 0
                    else if uint TxPwr < 10 then 10
                    else word_of_int ((30 - uint TxPwr) div 2))
                 else 0)
          in (case send_cmd m p_Device (''AT+TXP='' @ to_string (uint TxPwrIndex)) tr1 of
                (Error, tr2) \<Rightarrow> (Return Error, tr2))
      | (Return (Error, _), tr1) \<Rightarrow> (Return Error, tr1)
      | (Throw e, tr1) \<Rightarrow> (Throw e, tr1)
      | (Fault, tr1) \<Rightarrow> (Fault, tr1)
      | (Pending, tr1) \<Rightarrow> (Pending, tr1))"

definition RAK3172_LoRaWAN_SetRX1Delay ::
  "module \<Rightarrow> RAK3172_t option \<Rightarrow> 16 word \<Rightarrow> trace \<Rightarrow> RAK3172_Error_t \<times> trace" where
  "RAK3172_LoRaWAN_SetRX1Delay m p_Device Delay tr =
     send_cmd m p_Device (''AT+RX1DL='' @ to_string (uint Delay)) tr"

definition RAK3172_LoRaWAN_SetRX2Delay ::
  "module \<Rightarrow> RAK3172_t option \<Rightarrow> 16 word \<Rightarrow> trace \<Rightarrow> RAK3172_Error_t \<times> trace" where
  "RAK3172_LoRaWAN_SetRX2Delay m p_Device Delay tr =
     send_cmd m p_Device (''AT+RX2DL='' @ to_string (uint Delay)) tr"

text \<open>The next three getters store through their pointer without testing it.\<close>

definition RAK3172_LoRaWAN_GetSNR ::
  "module \<Rightarrow> RAK3172_t option \<Rightarrow> out_ptr \<Rightarrow> trace \<Rightarrow> (RAK3172_Error_t \<times> 8 word option) outcome \<times> trace" where
  "RAK3172_LoRaWAN_GetSNR m p_Device p_SNR tr =
     (case RAK3172_SendCommand m p_Device ''AT+SNR=?'' tr of
        ((Error, Value, Status), tr1) \<Rightarrow>
          if Error \<noteq> RAK3172_ERR_OK then (Return (Error, None), tr1)
          else (case stoi Value of
                  Inl e \<Rightarrow> (Throw e, tr1)
                | Inr v \<Rightarrow>
                    if p_SNR = NULL then (Fault, tr1)
                    else (Return (RAK3172_ERR_OK, Some (word_of_int v)), tr1)))"

text \<open>\<^verbatim>\<open>(int8_t)std::stoi(Value)\<close>: the low byte, read as two's complement.\<close>

definition RAK3172_LoRaWAN_GetRSSI ::
  "module \<Rightarrow> RAK3172_t option \<Rightarrow> out_ptr \<Rightarrow> trace \<Rightarrow> (RAK3172_Error_t \<times> int option) outcome \<times> trace" where
  "RAK3172_LoRaWAN_GetRSSI m p_Device p_RSSI tr =
     (case RAK3172_SendCommand m p_Device ''AT+RSSI=?'' tr of
        ((Error, Value, Status), tr1) \<Rightarrow>
          if Error \<noteq> RAK3172_ERR_OK then (Return (Error, None), tr1)
          else (case stoi Value of
                  Inl e \<Rightarrow> (Throw e, tr1)
                | Inr v \<Rightarrow>
                    if p_RSSI = NULL then (Fault, tr1)
                    else (Return (RAK3172_ERR_OK, Some (sint (word_of_int v :: 8 word))), tr1)))"

definition RAK3172_LoRaWAN_GetDuty ::
  "module \<Rightarrow> RAK3172_t option \<Rightarrow> out_ptr \<Rightarrow> trace \<Rightarrow> (RAK3172_Error_t \<times> 8 word option) outcome \<times> trace" where
  "RAK3172_LoRaWAN_GetDuty m p_Device p_Duty tr =
     (case RAK3172_LoRaWAN_GetBand m p_Device Target tr of
        (Return (RAK3172_ERR_OK, Some Band), tr1) \<Rightarrow>
          if Band \<noteq> RAK_BAND_EU868 \<and> Band \<noteq> RAK_BAND_RU864 \<and> Band \<noteq> RAK_BAND_EU433
          then (Return (RAK3172_ERR_INVALID_ARG, None), tr1)
          else (case RAK3172_SendCommand m p_Device ''AT+DUTYTIME=?'' tr1 of
                  ((Error, Value, Status), tr2) \<Rightarrow>
                    if Error \<noteq> RAK3172_ERR_OK then (Return (Error, None), tr2)
                    else (case stoi Value of
                            Inl e \<Rightarrow> (Throw e, tr2)
                          | Inr v \<Rightarrow>
                              if p_Duty = NULL then (Fault, tr2)
                              else (Return (RAK3172_ERR_OK, Some (word_of_int v)), tr2)))
      | (Return (Error, _), tr1) \<Rightarrow> (Return (Error, None), tr1)
      | (Throw e, tr1) \<Rightarrow> (Throw e, tr1)
      | (Fault, tr1) \<Rightarrow> (Fault, tr1)
      | (Pending, tr1) \<Rightarrow> (Pending, tr1))"

definition RAK3172_LoRaWAN_SetDataRate ::
  "module \<Rightarrow> RAK3172_t option \<Rightarrow> RAK3172_DataRate_t \<Rightarrow> trace \<Rightarrow> RAK3172_Error_t \<times> trace" where
  "RAK3172_LoRaWAN_SetDataRate m p_Device DR tr =
     (if RAK_DR_7 < DR then (RAK3172_ERR_INVALID_ARG, tr)
      else send_cmd m p_Device (''AT+DR='' @ to_string DR) tr)"

definition RAK3172_LoRaWAN_GetDataRate ::
  "module \<Rightarrow> RAK3172_t option \<Rightarrow> out_ptr \<Rightarrow> trace \<Rightarrow>
   (RAK3172_Error_t \<times> RAK3172_DataRate_t option) outcome \<times> trace" where
  "RAK3172_LoRaWAN_GetDataRate m p_Device p_DR tr =
     (if p_DR = NULL then (Return (RAK3172_ERR_INVALID_ARG, None), tr)
      else (case RAK3172_SendCommand m p_Device ''AT+DR=?'' tr of
              ((Error, Value, Status), tr1) \<Rightarrow>
                if Error \<noteq> RAK3172_ERR_OK then (Return (Error, None), tr1)
                else (case stoi Value of
                        Inl e \<Rightarrow> (Throw e, tr1)
                      | Inr v \<Rightarrow> (Return (RAK3172_ERR_OK, Some v), tr1))))"

definition RAK3172_LoRaWAN_SetADR ::
  "module \<Rightarrow> RAK3172_t option \<Rightarrow> bool \<Rightarrow> trace \<Rightarrow> RAK3172_Error_t \<times> trace" where
  "RAK3172_LoRaWAN_SetADR m p_Device Enable tr =
     send_cmd m p_Device (''AT+ADR='' @ to_string (of_bool Enable)) tr"

definition RAK3172_LoRaWAN_GetADR ::
  "module \<Rightarrow> RAK3172_t option \<Rightarrow> out_ptr \<Rightarrow> trace \<Rightarrow> (RAK3172_Error_t \<times> bool option) outcome \<times> trace" where
  "RAK3172_LoRaWAN_GetADR m p_Device p_Enable tr =
     (if p_Enable = NULL then (Return (RAK3172_ERR_INVALID_ARG, None), tr)
      else (case RAK3172_SendCommand m p_Device ''AT+ADR=?'' tr of
              ((Error, Value, Status), tr1) \<Rightarrow>
                if Error \<noteq> RAK3172_ERR_OK then (Return (Error, None), tr1)
                else (case stoi Value of
                        Inl e \<Rightarrow> (Throw e, tr1)
                      | Inr v \<Rightarrow> (Return (RAK3172_ERR_OK, Some (v \<noteq> 0)), tr1))))"

definition RAK3172_LoRaWAN_SetJoinMode ::
  "module \<Rightarrow> RAK3172_t option \<Rightarrow> RAK3172_JoinMode_t \<Rightarrow> trace \<Rightarrow> RAK3172_Error_t \<times> trace" where
  "RAK3172_LoRaWAN_SetJoinMode m p_Device Mode tr =
     send_cmd m p_Device (''AT+NJM='' @ to_string Mode) tr"

definition RAK3172_LoRaWAN_GetJoinMode ::
  "module \<Rightarrow> RAK3172_t option \<Rightarrow> out_ptr \<Rightarrow> trace \<Rightarrow>
   (RAK3172_Error_t \<times> RAK3172_JoinMode_t option) outcome \<times> trace" where
  "RAK3172_LoRaWAN_GetJoinMode m p_Device p_Mode tr =
     (if p_Mode = NULL then (Return (RAK3172_ERR_INVALID_ARG, None), tr)
      else (case RAK3172_SendCommand m p_Device ''AT+NJM=?'' tr of
              ((Error, Value, Status), tr1) \<Rightarrow>
                if Error \<noteq> RAK3172_ERR_OK then (Return (Error, None), tr1)
                else (case stoi Value of
                        Inl e \<Rightarrow> (Throw e, tr1)
                      | Inr v \<Rightarrow> (Return (RAK3172_ERR_OK, Some v), tr1))))"

section \<open>Modules for concrete runs\<close>

text \<open>
  Modelled from the spec: a radio module (its firmware is not part of the repository)
  that accepts every command, answers \<^verbatim>\<open>AT+BAND=?\<close> with a fixed band and
  \<^verbatim>\<open>AT+MASK=?\<close> with the mask most recently written by \<^verbatim>\<open>AT+MASK=<hex>\<close>
  (\<^verbatim>\<open>0000\<close> before the first), and every other query with \<^verbatim>\<open>0\<close>.
\<close>

fun last_mask :: "trace \<Rightarrow> string" where
  "last_mask [] = ''0000''"
| "last_mask (Waited # tr) = last_mask tr"
| "last_mask (Sent c # tr) =
     (if take 8 c = ''AT+MASK='' \<and> c \<noteq> ''AT+MASK=?'' then drop 8 c else last_mask tr)"

definition sim_module :: "string \<Rightarrow> module" where
  "sim_module band tr Command =
     (if Command = ''AT+BAND=?'' then (RAK3172_ERR_OK, band, ''OK'')
      else if Command = ''AT+MASK=?'' then (RAK3172_ERR_OK, last_mask (rev tr), ''OK'')
      else if str_find Command ''=?'' 0 \<noteq> npos then (RAK3172_ERR_OK, ''0'', ''OK'')
      else (RAK3172_ERR_OK, [], ''OK''))"

text \<open>
  Modelled from the spec: a module that answers \<^verbatim>\<open>ERROR\<close> (reported as an
  invalid-response error, 4.2) to the commands that start with \<open>prefix\<close> and accepts the
  others.
\<close>

definition reject_module :: "string \<Rightarrow> module" where
  "reject_module prefix tr Command =
     (if take (length prefix) Command = prefix then (RAK3172_ERR_INVALID_RESPONSE, [], ''ERROR'')
      else (RAK3172_ERR_OK, ''0'', ''OK''))"

section \<open>Definitions in the words of the specification\<close>

text \<open>
  A case-insensitive hexadecimal decoder, following the spec's round-trip property
  (the driver has none: the module decodes): two digits per byte, high nibble first.
\<close>

definition hexval :: "char \<Rightarrow> nat option" where
  "hexval c =
     (let n = (of_char c :: nat) in
      if 48 \<le> n \<and> n \<le> 57 then Some (n - 48)
      else if 65 \<le> n \<and> n \<le> 70 then Some (n - 55)
      else if 97 \<le> n \<and> n \<le> 102 then Some (n - 87)
      else None)"

fun hex_decode :: "string \<Rightarrow> 8 word list option" where
  "hex_decode [] = Some []"
| "hex_decode [c] = None"
| "hex_decode (h # l # cs) =
     (case (hexval h, hexval l, hex_decode cs) of
        (Some a, Some b, Some bs) \<Rightarrow> Some (word_of_nat (16 * a + b) # bs)
      | _ \<Rightarrow> None)"

text \<open>
  The transmit power index in the words of the specification (4.3): for EU868 the
  ceiling at 16 dBm gives index 0, the floor below 2 dBm index 10, otherwise
  \<open>(16 - dBm) / 2\<close> by integer division; for US915 the ceiling at 30 dBm gives index
  0, the floor below 10 dBm index 10, otherwise \<open>(30 - dBm) / 2\<close>; every other region
  gets index 0.
\<close>

definition spec_tx_power_index :: "RAK3172_Band_t \<Rightarrow> int \<Rightarrow> int" where
  "spec_tx_power_index Band dBm =
     (if Band = RAK_BAND_EU868 then
        (if 16 \<le> dBm then 0 else if dBm < 2 then 10 else (16 - dBm) div 2)
      else if Band = RAK_BAND_US915 then
        (if 30 \<le> dBm then 0 else if dBm < 10 then 10 else (30 - dBm) div 2)
      else 0)"

section \<open>Auxiliary facts\<close>

subsection \<open>Hexadecimal digits\<close>

lemma hex_of_nat_small: "n < 16 \<Longrightarrow> hex_of_nat upper n = [hexdigit upper n]"
  by (subst hex_of_nat.simps) simp

lemma hexdigit_zero: "hexdigit upper 0 = CHR ''0''"
  by (simp add: hexdigit_def)

lemma sprintf_hex_byte:
  assumes "n < 256"
  shows "sprintf_hex upper 2 n = [hexdigit upper (n div 16), hexdigit upper (n mod 16)]"
proof (cases "n < 16")
  case True
  then show ?thesis
    by (simp add: sprintf_hex_def hex_of_nat_small hexdigit_zero)
next
  case False
  from assms have "n div 16 < 16" by simp
  then have "hex_of_nat upper n = [hexdigit upper (n div 16), hexdigit upper (n mod 16)]"
    using False by (subst hex_of_nat.simps) (simp add: hex_of_nat_small)
  then show ?thesis
    by (simp add: sprintf_hex_def)
qed

lemma sprintf_hex_word8:
  "sprintf_hex upper 2 (unat (b :: 8 word)) = [hexdigit upper (unat b div 16), hexdigit upper (unat b mod 16)]"
proof -
  have "unat b < 2 ^ LENGTH(8)" by (rule unsigned_less)
  then have "unat b < 256" by simp
  then show ?thesis by (rule sprintf_hex_byte)
qed

lemma less_16_cases:
  assumes "d < (16::nat)"
  shows "d \<in> set [0, 1, 2, 3, 4, 5, 6, 7, 8, 9, 10, 11, 12, 13, 14, 15]"
  using assms by (simp del: One_nat_def) arith

lemma hexval_hexdigit: 
  assumes "d < 16"
  shows "hexval (hexdigit upper d) = Some d"
proof -
  have "\<forall>x \<in> set [0, 1, 2, 3, 4, 5, 6, 7, 8, 9, 10, 11, 12, 13, 14, 15 :: nat]. hexval (hexdigit upper x) = Some x"
    by (simp add: hexval_def hexdigit_def)
  with less_16_cases [OF assms] show ?thesis by blast
qed

lemma hexdigit_upper_alphabet:
  assumes "d < 16"
  shows "hexdigit True d \<in> set ''0123456789ABCDEF''"
proof -
  have "\<forall>x \<in> set [0, 1, 2, 3, 4, 5, 6, 7, 8, 9, 10, 11, 12, 13, 14, 15 :: nat]. hexdigit True x \<in> set ''0123456789ABCDEF''"
    by (simp add: hexdigit_def)
  with less_16_cases [OF assms] show ?thesis by blast
qed

lemma hexdigit_lower_alphabet:
  assumes "d < 16"
  shows "hexdigit False d \<in> set ''0123456789abcdef''"
proof -
  have "\<forall>x \<in> set [0, 1, 2, 3, 4, 5, 6, 7, 8, 9, 10, 11, 12, 13, 14, 15 :: nat]. hexdigit False x \<in> set ''0123456789abcdef''"
    by (simp add: hexdigit_def)
  with less_16_cases [OF assms] show ?thesis by blast
qed

lemma hex_decode_snoc:
  "hex_decode xs = Some bs \<Longrightarrow> hexval h = Some a \<Longrightarrow> hexval l = Some b \<Longrightarrow>
   hex_decode (xs @ [h, l]) = Some (bs @ [word_of_nat (16 * a + b)])"
proof (induction xs arbitrary: bs rule: hex_decode.induct)
  case 1
  then show ?case by simp
next
  case (2 c)
  then show ?case by simp
next
  case (3 h' l' cs)
  then show ?case
    by (auto split: option.splits)
qed

lemma encode_loop_length: "length (encode_loop upper p n) = 2 * n"
  by (induction n) (simp_all add: sprintf_hex_word8)

lemma word8_nibbles: "word_of_nat (16 * (unat b div 16) + unat b mod 16) = (b :: 8 word)"
  by simp

lemma encode_loop_decode: "hex_decode (encode_loop upper p n) = Some (map p [0 ..< n])"
proof (induction n)
  case 0
  then show ?case by simp
next
  case (Suc n)
  have "hex_decode (encode_loop upper p n @ [hexdigit upper (unat (p n) div 16), hexdigit upper (unat (p n) mod 16)])
        = Some (map p [0 ..< n] @ [word_of_nat (16 * (unat (p n) div 16) + unat (p n) mod 16)])"
    by (rule hex_decode_snoc [OF Suc.IH]) (simp_all add: hexval_hexdigit div_less_iff_less_mult unsigned_less [where 'b = 8, simplified])
  then show ?case
    by (simp add: sprintf_hex_word8 word8_nibbles)
qed

lemma encode_loop_chars:
  assumes "\<And>d. d < 16 \<Longrightarrow> hexdigit upper d \<in> A"
  shows "set (encode_loop upper p n) \<subseteq> A"
proof (induction n)
  case 0
  then show ?case by simp
next
  case (Suc n)
  have "unat (p n) div 16 < 16"
    by (simp add: div_less_iff_less_mult unsigned_less [where 'b = 8, simplified])
  then have "hexdigit upper (unat (p n) div 16) \<in> A"
    by (rule assms)
  moreover have "hexdigit upper (unat (p n) mod 16) \<in> A"
    by (rule assms) simp
  ultimately show ?case
    using Suc.IH by (simp add: sprintf_hex_word8)
qed

lemma encode_loop_upper_alphabet: "set (encode_loop True p n) \<subseteq> set ''0123456789ABCDEF''"
  by (rule encode_loop_chars) (rule hexdigit_upper_alphabet)

lemma encode_loop_lower_alphabet: "set (encode_loop False p n) \<subseteq> set ''0123456789abcdef''"
  by (rule encode_loop_chars) (rule hexdigit_lower_alphabet)

lemma encode_loop_numeral:
  "encode_loop upper p (numeral k) =
     encode_loop upper p (pred_numeral k) @ sprintf_hex upper 2 (unat (p (pred_numeral k)))"
  by (simp add: numeral_eq_Suc)


subsection \<open>The Command Engine on a valid device\<close>

lemma send_cmd_Some:
  "send_cmd m (Some d) Command tr = (fst (m tr Command), tr @ [Sent Command])"
  by (simp add: send_cmd_def RAK3172_SendCommand_def split: prod.splits)

lemma SendCommand_Some:
  "RAK3172_SendCommand m (Some d) Command tr = (m tr Command, tr @ [Sent Command])"
  by (simp add: RAK3172_SendCommand_def)

lemma to_string_0: "to_string 0 = ''0''"
  by (simp add: to_string_def dec_of_nat.simps)

lemma to_string_1: "to_string 1 = ''1''"
  by (simp add: to_string_def dec_of_nat.simps)


subsection \<open>The transmit power index\<close>

lemma uint_index_word8:
  "0 \<le> k \<Longrightarrow> k < 256 \<Longrightarrow> uint (word_of_int k :: 8 word) = k"
  by (simp add: unsigned_of_int take_bit_int_eq_self)

lemma tx_power_index_code:
  "uint (if Band = RAK_BAND_EU868 then
           (if 16 \<le> uint TxPwr then 0
            else if uint TxPwr < 16 - 14 then 10
            else (word_of_int ((16 - uint TxPwr) div 2) :: 8 word))
         else if Band = RAK_BAND_US915 then
           (if 30 \<le> uint TxPwr then 0
            else if uint TxPwr < 10 then 10
            else word_of_int ((30 - uint TxPwr) div 2))
         else 0) = spec_tx_power_index Band (uint (TxPwr :: 8 word))"
proof -
  have a: "\<not> 16 \<le> uint TxPwr \<Longrightarrow> \<not> uint TxPwr < 2 \<Longrightarrow>
           uint (word_of_int ((16 - uint TxPwr) div 2) :: 8 word) = (16 - uint TxPwr) div 2"
    by (rule uint_index_word8) simp_all
  have b: "\<not> 30 \<le> uint TxPwr \<Longrightarrow> \<not> uint TxPwr < 10 \<Longrightarrow>
           uint (word_of_int ((30 - uint TxPwr) div 2) :: 8 word) = (30 - uint TxPwr) div 2"
    by (rule uint_index_word8) simp_all
  show ?thesis
    by (simp add: spec_tx_power_index_def a b)
qed

lemma spec_tx_power_index_antimono:
  "a \<le> b \<Longrightarrow> spec_tx_power_index Band b \<le> spec_tx_power_index Band a"
  by (auto simp: spec_tx_power_index_def)

subsection \<open>The shift loop of the sub-band getter\<close>

text \<open>
  For a mask other than 0 the loop ends after at most 31 shifts, with the mask at 1 and
  the counter at 1 plus the number of shifts.
\<close>

lemma shift_loop_one: "shift_loop 1 s = Some (1, s)"
  by (subst shift_loop.simps) simp

lemma shift_loop_step: "Mask \<noteq> 1 \<Longrightarrow> shift_loop Mask s = shift_loop (drop_bit 1 Mask) (s + 1)"
  by (subst shift_loop.simps) simp

lemma unat_shift_right: "unat (drop_bit 1 (Mask :: 32 word)) = unat Mask div 2"
  by (simp add: drop_bit_eq_div unat_div)

lemma mask_below_2: "unat (Mask :: 32 word) < 2 \<Longrightarrow> Mask \<noteq> 0 \<Longrightarrow> Mask = 1"
  by (metis One_nat_def less_2_cases unsigned_1 unsigned_eq_0_iff word_eq_iff_unsigned)

lemma mask_from_2: "(Mask :: 32 word) \<noteq> 0 \<Longrightarrow> Mask \<noteq> 1 \<Longrightarrow> 2 \<le> unat Mask"
  by (metis One_nat_def Suc_1 not_less_eq_eq old.nat.exhaust unsigned_1 unsigned_eq_0_iff
      word_eq_iff_unsigned zero_le)

lemma shifted_mask_nonzero:
  assumes "2 \<le> unat (Mask :: 32 word)"
  shows "drop_bit 1 Mask \<noteq> 0"
proof
  assume "drop_bit 1 Mask = 0"
  then have "unat (drop_bit 1 Mask) = 0"
    by simp
  then have "unat Mask div 2 = 0"
    by (simp only: unat_shift_right)
  with assms show False
    by simp
qed

lemma shift_loop_bounded:
  "unat Mask < 2 ^ Suc n \<Longrightarrow> Mask \<noteq> 0 \<Longrightarrow> \<exists>k\<le>n. shift_loop Mask s = Some (1, s + of_nat k)"
proof (induction n arbitrary: Mask s)
  case 0
  then have "Mask = 1"
    by (simp add: mask_below_2)
  then show ?case
    by (simp add: shift_loop_one)
next
  case (Suc n)
  show ?case
  proof (cases "Mask = 1")
    case True
    then show ?thesis
      by (intro exI [of _ 0]) (simp add: shift_loop_one)
  next
    case False
    from Suc.prems(2) False have "2 \<le> unat Mask"
      by (rule mask_from_2)
    then have nz: "drop_bit 1 Mask \<noteq> 0"
      by (rule shifted_mask_nonzero)
    from Suc.prems(1) have "unat Mask div 2 < 2 ^ Suc n"
      by simp
    then have "unat (drop_bit 1 Mask) < 2 ^ Suc n"
      by (simp only: unat_shift_right)
    from Suc.IH [OF this nz, of "s + 1"]
    obtain k where k: "k \<le> n" "shift_loop (drop_bit 1 Mask) (s + 1) = Some (1, s + 1 + of_nat k)"
      by blast
    from False k(2) have "shift_loop Mask s = Some (1, s + of_nat (Suc k))"
      by (simp add: shift_loop_step add.assoc)
    with k(1) show ?thesis
      by (intro exI [of _ "Suc k"]) simp
  qed
qed

lemma shift_loop_from_1:
  assumes "Mask \<noteq> 0"
  shows "\<exists>k\<le>31. shift_loop Mask 1 = Some (1, 1 + of_nat k)"
proof -
  have "unat Mask < 2 ^ LENGTH(32)"
    by (rule unsigned_less)
  then have "unat Mask < 2 ^ Suc 31"
    by simp
  from shift_loop_bounded [OF this assms] show ?thesis .
qed

lemma shifts_positive:
  assumes "k \<le> 31"
  shows "uint (1 + of_nat k :: 8 word) = 1 + int k"
proof -
  have "uint (word_of_int (1 + int k) :: 8 word) = 1 + int k"
    using assms by (intro uint_index_word8) simp_all
  then show ?thesis
    by simp
qed

subsection \<open>Formatting\<close>

lemma replicate_numeral:
  "replicate (numeral k) x = x # replicate (pred_numeral k) x"
  by (simp add: numeral_eq_Suc)


subsection \<open>Round trips of the accessors\<close>

lemma get_band_trace:
  "\<exists>r. RAK3172_LoRaWAN_GetBand m (Some d) Target tr = (r, tr @ [Sent ''AT+BAND=?''])"
  by (simp add: RAK3172_LoRaWAN_GetBand_def SendCommand_Some split: prod.splits sum.splits)

lemma one_more_command:
  "\<exists>cs. tr @ [Sent c] = tr @ Sent c # cs \<and> length cs \<le> 1"
  "\<exists>cs. tr @ [Sent c, e] = tr @ Sent c # cs \<and> length cs \<le> 1"
  by simp_all

lemma set_pnm_trip:
  "RAK3172_LoRaWAN_SetPNM m (Some d) Enable tr =
       (fst (m tr (''AT+PNM='' @ to_string (of_bool Enable))), tr @ [Sent (''AT+PNM='' @ to_string (of_bool Enable))])"
  by (simp add: RAK3172_LoRaWAN_SetPNM_def send_cmd_Some)

lemma set_confirmation_trip:
  "RAK3172_LoRaWAN_SetConfirmation m (Some d) Enable tr =
       (fst (m tr (''AT+CFM='' @ to_string (of_bool Enable))), tr @ [Sent (''AT+CFM='' @ to_string (of_bool Enable))])"
  by (simp add: RAK3172_LoRaWAN_SetConfirmation_def send_cmd_Some)

lemma set_band_trip:
  "RAK3172_LoRaWAN_SetBand m (Some d) Band tr =
       (fst (m tr (''AT+BAND='' @ to_string (uint (word_of_int Band :: 8 word)))), tr @ [Sent (''AT+BAND='' @ to_string (uint (word_of_int Band :: 8 word)))])"
  by (simp add: RAK3172_LoRaWAN_SetBand_def send_cmd_Some)

lemma set_rx1_delay_trip:
  "RAK3172_LoRaWAN_SetRX1Delay m (Some d) Delay tr =
       (fst (m tr (''AT+RX1DL='' @ to_string (uint Delay))), tr @ [Sent (''AT+RX1DL='' @ to_string (uint Delay))])"
  by (simp add: RAK3172_LoRaWAN_SetRX1Delay_def send_cmd_Some)

lemma set_rx2_delay_trip:
  "RAK3172_LoRaWAN_SetRX2Delay m (Some d) Delay tr =
       (fst (m tr (''AT+RX2DL='' @ to_string (uint Delay))), tr @ [Sent (''AT+RX2DL='' @ to_string (uint Delay))])"
  by (simp add: RAK3172_LoRaWAN_SetRX2Delay_def send_cmd_Some)

lemma set_adr_trip:
  "RAK3172_LoRaWAN_SetADR m (Some d) Enable tr =
       (fst (m tr (''AT+ADR='' @ to_string (of_bool Enable))), tr @ [Sent (''AT+ADR='' @ to_string (of_bool Enable))])"
  by (simp add: RAK3172_LoRaWAN_SetADR_def send_cmd_Some)

lemma set_join_mode_trip:
  "RAK3172_LoRaWAN_SetJoinMode m (Some d) Mode tr =
       (fst (m tr (''AT+NJM='' @ to_string Mode)), tr @ [Sent (''AT+NJM='' @ to_string Mode)])"
  by (simp add: RAK3172_LoRaWAN_SetJoinMode_def send_cmd_Some)

lemma set_data_rate_trip:
  "RAK3172_LoRaWAN_SetDataRate m (Some d) DR tr =
       (if RAK_DR_7 < DR then (RAK3172_ERR_INVALID_ARG, tr)
        else (fst (m tr (''AT+DR='' @ to_string DR)), tr @ [Sent (''AT+DR='' @ to_string DR)]))"
  by (simp add: RAK3172_LoRaWAN_SetDataRate_def send_cmd_Some)

lemma get_retries_trip:
  "snd (RAK3172_LoRaWAN_GetRetries m (Some d) Target tr) = tr @ [Sent ''AT+RETY=?'']"
  by (simp add: RAK3172_LoRaWAN_GetRetries_def SendCommand_Some split: prod.splits sum.splits)

lemma get_retries_parsed:
  "(\<forall>Value Status v. m tr ''AT+RETY=?'' = (RAK3172_ERR_OK, Value, Status) \<and> stoi Value = Inr v \<longrightarrow>
        fst (RAK3172_LoRaWAN_GetRetries m (Some d) Target tr) = Return (RAK3172_ERR_OK, Some (word_of_int v)))"
  by (simp add: RAK3172_LoRaWAN_GetRetries_def SendCommand_Some)

lemma get_pnm_trip:
  "snd (RAK3172_LoRaWAN_GetPNM m (Some d) Target tr) = tr @ [Sent ''AT+PNM=?'']"
  by (simp add: RAK3172_LoRaWAN_GetPNM_def SendCommand_Some split: prod.splits sum.splits)

lemma get_pnm_parsed:
  "(\<forall>Value Status v. m tr ''AT+PNM=?'' = (RAK3172_ERR_OK, Value, Status) \<and> stoi Value = Inr v \<longrightarrow>
        fst (RAK3172_LoRaWAN_GetPNM m (Some d) Target tr) = Return (RAK3172_ERR_OK, Some (v \<noteq> 0)))"
  by (simp add: RAK3172_LoRaWAN_GetPNM_def SendCommand_Some)

lemma get_confirmation_trip:
  "snd (RAK3172_LoRaWAN_GetConfirmation m (Some d) Target tr) = tr @ [Sent ''AT+CFM=?'']"
  by (simp add: RAK3172_LoRaWAN_GetConfirmation_def SendCommand_Some split: prod.splits sum.splits)

lemma get_confirmation_parsed:
  "(\<forall>Value Status v. m tr ''AT+CFM=?'' = (RAK3172_ERR_OK, Value, Status) \<and> stoi Value = Inr v \<longrightarrow>
        fst (RAK3172_LoRaWAN_GetConfirmation m (Some d) Target tr) = Return (RAK3172_ERR_OK, Some (v \<noteq> 0)))"
  by (simp add: RAK3172_LoRaWAN_GetConfirmation_def SendCommand_Some)

lemma get_band_trip:
  "snd (RAK3172_LoRaWAN_GetBand m (Some d) Target tr) = tr @ [Sent ''AT+BAND=?'']"
  by (simp add: RAK3172_LoRaWAN_GetBand_def SendCommand_Some split: prod.splits sum.splits)

lemma get_band_parsed:
  "(\<forall>Value Status v. m tr ''AT+BAND=?'' = (RAK3172_ERR_OK, Value, Status) \<and> stoi Value = Inr v \<longrightarrow>
        fst (RAK3172_LoRaWAN_GetBand m (Some d) Target tr) = Return (RAK3172_ERR_OK, Some (v)))"
  by (simp add: RAK3172_LoRaWAN_GetBand_def SendCommand_Some)

lemma get_data_rate_trip:
  "snd (RAK3172_LoRaWAN_GetDataRate m (Some d) Target tr) = tr @ [Sent ''AT+DR=?'']"
  by (simp add: RAK3172_LoRaWAN_GetDataRate_def SendCommand_Some split: prod.splits sum.splits)

lemma get_data_rate_parsed:
  "(\<forall>Value Status v. m tr ''AT+DR=?'' = (RAK3172_ERR_OK, Value, Status) \<and> stoi Value = Inr v \<longrightarrow>
        fst (RAK3172_LoRaWAN_GetDataRate m (Some d) Target tr) = Return (RAK3172_ERR_OK, Some (v)))"
  by (simp add: RAK3172_LoRaWAN_GetDataRate_def SendCommand_Some)

lemma get_adr_trip:
  "snd (RAK3172_LoRaWAN_GetADR m (Some d) Target tr) = tr @ [Sent ''AT+ADR=?'']"
  by (simp add: RAK3172_LoRaWAN_GetADR_def SendCommand_Some split: prod.splits sum.splits)

lemma get_adr_parsed:
  "(\<forall>Value Status v. m tr ''AT+ADR=?'' = (RAK3172_ERR_OK, Value, Status) \<and> stoi Value = Inr v \<longrightarrow>
        fst (RAK3172_LoRaWAN_GetADR m (Some d) Target tr) = Return (RAK3172_ERR_OK, Some (v \<noteq> 0)))"
  by (simp add: RAK3172_LoRaWAN_GetADR_def SendCommand_Some)

lemma get_join_mode_trip:
  "snd (RAK3172_LoRaWAN_GetJoinMode m (Some d) Target tr) = tr @ [Sent ''AT+NJM=?'']"
  by (simp add: RAK3172_LoRaWAN_GetJoinMode_def SendCommand_Some split: prod.splits sum.splits)

lemma get_join_mode_parsed:
  "(\<forall>Value Status v. m tr ''AT+NJM=?'' = (RAK3172_ERR_OK, Value, Status) \<and> stoi Value = Inr v \<longrightarrow>
        fst (RAK3172_LoRaWAN_GetJoinMode m (Some d) Target tr) = Return (RAK3172_ERR_OK, Some (v)))"
  by (simp add: RAK3172_LoRaWAN_GetJoinMode_def SendCommand_Some)

lemma get_snr_trip:
  "snd (RAK3172_LoRaWAN_GetSNR m (Some d) p tr) = tr @ [Sent ''AT+SNR=?'']"
  by (simp add: RAK3172_LoRaWAN_GetSNR_def SendCommand_Some split: prod.splits sum.splits)

lemma get_snr_parsed:
  "(\<forall>Value Status v. m tr ''AT+SNR=?'' = (RAK3172_ERR_OK, Value, Status) \<and> stoi Value = Inr v \<longrightarrow>
        fst (RAK3172_LoRaWAN_GetSNR m (Some d) Target tr) = Return (RAK3172_ERR_OK, Some (word_of_int v)))"
  by (simp add: RAK3172_LoRaWAN_GetSNR_def SendCommand_Some)

lemma get_rssi_trip:
  "snd (RAK3172_LoRaWAN_GetRSSI m (Some d) p tr) = tr @ [Sent ''AT+RSSI=?'']"
  by (simp add: RAK3172_LoRaWAN_GetRSSI_def SendCommand_Some split: prod.splits sum.splits)

lemma get_rssi_parsed:
  "(\<forall>Value Status v. m tr ''AT+RSSI=?'' = (RAK3172_ERR_OK, Value, Status) \<and> stoi Value = Inr v \<longrightarrow>
        fst (RAK3172_LoRaWAN_GetRSSI m (Some d) Target tr) = Return (RAK3172_ERR_OK, Some (sint (word_of_int v :: 8 word))))"
  by (simp add: RAK3172_LoRaWAN_GetRSSI_def SendCommand_Some)

lemma set_retries_trips:
  "snd (RAK3172_LoRaWAN_SetRetries m (Some d) Retries tr) =
       (if 7 < Retries then tr
        else if fst (m tr (''AT+CFM='' @ to_string (of_bool (0 < Retries)))) = RAK3172_ERR_OK
        then tr @ [Sent (''AT+CFM='' @ to_string (of_bool (0 < Retries))),
                   Sent (''AT+RETY='' @ to_string (uint Retries))]
        else tr @ [Sent (''AT+CFM='' @ to_string (of_bool (0 < Retries)))])"
  by (simp add: RAK3172_LoRaWAN_SetRetries_def send_cmd_Some Let_def)

lemma set_tx_pwr_trips:
  "(\<exists>cs. snd (RAK3172_LoRaWAN_SetTxPwr m (Some d) TxPwr tr) = tr @ Sent ''AT+BAND=?'' # cs \<and> length cs \<le> 1)"
proof -
  obtain r where g: "RAK3172_LoRaWAN_GetBand m (Some d) Target tr = (r, tr @ [Sent ''AT+BAND=?''])"
    using get_band_trace by blast
  show ?thesis
    unfolding RAK3172_LoRaWAN_SetTxPwr_def g
    by (simp add: send_cmd_Some SendCommand_Some Let_def one_more_command
        split: outcome.splits prod.splits RAK3172_Error_t.splits option.splits sum.splits)
qed

lemma get_sub_band_trips:
  "(\<exists>cs. snd (RAK3172_LoRaWAN_GetSubBand m (Some d) Target tr) = tr @ Sent ''AT+BAND=?'' # cs \<and> length cs \<le> 1)"
proof -
  obtain r where g: "RAK3172_LoRaWAN_GetBand m (Some d) Target tr = (r, tr @ [Sent ''AT+BAND=?''])"
    using get_band_trace by blast
  show ?thesis
    unfolding RAK3172_LoRaWAN_GetSubBand_def g
    by (simp add: send_cmd_Some SendCommand_Some Let_def one_more_command
        split: outcome.splits prod.splits RAK3172_Error_t.splits option.splits sum.splits)
qed

lemma get_duty_trips:
  "(\<exists>cs. snd (RAK3172_LoRaWAN_GetDuty m (Some d) p tr) = tr @ Sent ''AT+BAND=?'' # cs \<and> length cs \<le> 1)"
proof -
  obtain r where g: "RAK3172_LoRaWAN_GetBand m (Some d) Target tr = (r, tr @ [Sent ''AT+BAND=?''])"
    using get_band_trace by blast
  show ?thesis
    unfolding RAK3172_LoRaWAN_GetDuty_def g
    by (simp add: send_cmd_Some SendCommand_Some Let_def one_more_command
        split: outcome.splits prod.splits RAK3172_Error_t.splits option.splits sum.splits)
qed

lemma set_sub_band_none_trips:
  "snd (RAK3172_LoRaWAN_SetSubBand m (Some d) RAK_SUB_BAND_NONE tr) = tr"
  by (simp add: RAK3172_LoRaWAN_SetSubBand_def)

lemma set_sub_band_trips:
  "(SubBand \<noteq> RAK_SUB_BAND_NONE \<longrightarrow>
        (\<exists>cs. snd (RAK3172_LoRaWAN_SetSubBand m (Some d) SubBand tr) = tr @ Sent ''AT+BAND=?'' # cs \<and> length cs \<le> 1))"
proof -
  obtain r where g: "RAK3172_LoRaWAN_GetBand m (Some d) Target tr = (r, tr @ [Sent ''AT+BAND=?''])"
    using get_band_trace by blast
  show ?thesis
    unfolding RAK3172_LoRaWAN_SetSubBand_def g
    by (simp add: send_cmd_Some SendCommand_Some Let_def one_more_command
        split: outcome.splits prod.splits RAK3172_Error_t.splits option.splits sum.splits)
qed

text \<open>
  The accessors that make more than one round trip, on every path: what they return and
  which commands they hand to the Command Engine, from the module's answers.
\<close>

lemma get_band_exact:
  "RAK3172_LoRaWAN_GetBand m (Some d) Target tr =
     (case m tr ''AT+BAND=?'' of
        (Error, Value, Status) \<Rightarrow>
          if Error \<noteq> RAK3172_ERR_OK then Return (Error, None)
          else (case stoi Value of Inl e \<Rightarrow> Throw e | Inr v \<Rightarrow> Return (RAK3172_ERR_OK, Some v)),
      tr @ [Sent ''AT+BAND=?''])"
  by (simp add: RAK3172_LoRaWAN_GetBand_def SendCommand_Some split: prod.splits sum.splits)

lemma set_retries_exact:
  "RAK3172_LoRaWAN_SetRetries m (Some d) Retries tr =
       (if 7 < Retries then (RAK3172_ERR_INVALID_ARG, tr)
        else if fst (m tr (''AT+CFM='' @ to_string (of_bool (0 < Retries)))) \<noteq> RAK3172_ERR_OK
        then (fst (m tr (''AT+CFM='' @ to_string (of_bool (0 < Retries)))),
              tr @ [Sent (''AT+CFM='' @ to_string (of_bool (0 < Retries)))])
        else (fst (m (tr @ [Sent (''AT+CFM='' @ to_string (of_bool (0 < Retries)))])
                     (''AT+RETY='' @ to_string (uint Retries))),
              tr @ [Sent (''AT+CFM='' @ to_string (of_bool (0 < Retries))),
                    Sent (''AT+RETY='' @ to_string (uint Retries))]))"
  by (simp add: RAK3172_LoRaWAN_SetRetries_def send_cmd_Some Let_def)

lemma set_tx_pwr_exact:
  "RAK3172_LoRaWAN_SetTxPwr m (Some d) TxPwr tr =
       (case m tr ''AT+BAND=?'' of
          (Error, Value, Status) \<Rightarrow>
            if Error \<noteq> RAK3172_ERR_OK then (Return Error, tr @ [Sent ''AT+BAND=?''])
            else (case stoi Value of
                    Inl e \<Rightarrow> (Throw e, tr @ [Sent ''AT+BAND=?''])
                  | Inr Band \<Rightarrow>
                      (Return (fst (m (tr @ [Sent ''AT+BAND=?''])
                                      (''AT+TXP='' @ to_string (spec_tx_power_index Band (uint TxPwr))))),
                       tr @ [Sent ''AT+BAND=?'',
                             Sent (''AT+TXP='' @ to_string (spec_tx_power_index Band (uint TxPwr)))])))"
  unfolding RAK3172_LoRaWAN_SetTxPwr_def get_band_exact
  by (simp only: Let_def tx_power_index_code)
     (simp add: send_cmd_Some split: prod.splits sum.splits RAK3172_Error_t.splits)

lemma get_duty_exact:
  "RAK3172_LoRaWAN_GetDuty m (Some d) p tr =
       (case m tr ''AT+BAND=?'' of
          (Error, Value, Status) \<Rightarrow>
            if Error \<noteq> RAK3172_ERR_OK then (Return (Error, None), tr @ [Sent ''AT+BAND=?''])
            else (case stoi Value of
                    Inl e \<Rightarrow> (Throw e, tr @ [Sent ''AT+BAND=?''])
                  | Inr Band \<Rightarrow>
                      if Band \<noteq> RAK_BAND_EU868 \<and> Band \<noteq> RAK_BAND_RU864 \<and> Band \<noteq> RAK_BAND_EU433
                      then (Return (RAK3172_ERR_INVALID_ARG, None), tr @ [Sent ''AT+BAND=?''])
                      else (case m (tr @ [Sent ''AT+BAND=?'']) ''AT+DUTYTIME=?'' of
                              (Error2, Value2, Status2) \<Rightarrow>
                                (if Error2 \<noteq> RAK3172_ERR_OK then Return (Error2, None)
                                 else (case stoi Value2 of
                                         Inl e \<Rightarrow> Throw e
                                       | Inr v \<Rightarrow>
                                           if p = NULL then Fault
                                           else Return (RAK3172_ERR_OK, Some (word_of_int v))),
                                 tr @ [Sent ''AT+BAND=?'', Sent ''AT+DUTYTIME=?'']))))"
  unfolding RAK3172_LoRaWAN_GetDuty_def get_band_exact
  by (simp add: SendCommand_Some split: prod.splits sum.splits RAK3172_Error_t.splits)

lemma get_sub_band_exact:
  "RAK3172_LoRaWAN_GetSubBand m (Some d) Target tr =
       (case m tr ''AT+BAND=?'' of
          (Error, Value, Status) \<Rightarrow>
            if Error \<noteq> RAK3172_ERR_OK then (Return (Error, None), tr @ [Sent ''AT+BAND=?''])
            else (case stoi Value of
                    Inl e \<Rightarrow> (Throw e, tr @ [Sent ''AT+BAND=?''])
                  | Inr Band \<Rightarrow>
                      if Band \<noteq> RAK_BAND_US915 \<and> Band \<noteq> RAK_BAND_AU915 \<and> Band \<noteq> RAK_BAND_CN470
                      then (Return (RAK3172_ERR_OK, Some RAK_SUB_BAND_NONE), tr @ [Sent ''AT+BAND=?''])
                      else (case m (tr @ [Sent ''AT+BAND=?'']) ''AT+MASK=?'' of
                              (Error2, Value2, Status2) \<Rightarrow>
                                (if Error2 \<noteq> RAK3172_ERR_OK then Return (Error2, None)
                                 else (case stoi Value2 of
                                         Inl e \<Rightarrow> Throw e
                                       | Inr v \<Rightarrow>
                                           if (word_of_int v :: 32 word) = 0
                                           then Return (RAK3172_ERR_OK, Some RAK_SUB_BAND_ALL)
                                           else (case shift_loop (word_of_int v) 1 of
                                                   None \<Rightarrow> Pending
                                                 | Some (Mask, Shifts) \<Rightarrow>
                                                     Return (RAK3172_ERR_OK, Some (uint Shifts + 2)))),
                                 tr @ [Sent ''AT+BAND=?'', Sent ''AT+MASK=?'']))))"
  unfolding RAK3172_LoRaWAN_GetSubBand_def get_band_exact
  by (simp add: SendCommand_Some Let_def
      split: prod.splits sum.splits RAK3172_Error_t.splits option.splits)

lemma set_sub_band_exact:
  "RAK3172_LoRaWAN_SetSubBand m (Some d) SubBand tr =
       (if SubBand = RAK_SUB_BAND_NONE then (Return RAK3172_ERR_OK, tr)
        else (case m tr ''AT+BAND=?'' of
          (Error, Value, Status) \<Rightarrow>
            if Error \<noteq> RAK3172_ERR_OK then (Return Error, tr @ [Sent ''AT+BAND=?''])
            else (case stoi Value of
                    Inl e \<Rightarrow> (Throw e, tr @ [Sent ''AT+BAND=?''])
                  | Inr Band \<Rightarrow>
                      if Band = RAK_BAND_US915 \<or> Band = RAK_BAND_AU915 \<or> Band = RAK_BAND_CN470 then
                        (if RAK_SUB_BAND_9 < SubBand \<and> Band \<noteq> RAK_BAND_CN470
                         then (Return RAK3172_ERR_INVALID_ARG, tr @ [Sent ''AT+BAND=?''])
                         else if SubBand = RAK_SUB_BAND_ALL
                         then (Return (fst (m (tr @ [Sent ''AT+BAND=?'']) ''AT+MASK=0000'')),
                               tr @ [Sent ''AT+BAND=?'', Sent ''AT+MASK=0000''])
                         else (Return (fst (m (tr @ [Sent ''AT+BAND=?''])
                                 (''AT+MASK='' @ sprintf_hex True 4 (unat (push_bit (nat (SubBand - 2)) (1 :: 32 word)))))),
                               tr @ [Sent ''AT+BAND=?'',
                                     Sent (''AT+MASK='' @ sprintf_hex True 4 (unat (push_bit (nat (SubBand - 2)) (1 :: 32 word))))]))
                      else (Return RAK3172_ERR_FAIL, tr @ [Sent ''AT+BAND=?'']))))"
  unfolding RAK3172_LoRaWAN_SetSubBand_def get_band_exact
  by (simp add: send_cmd_Some Let_def split: prod.splits sum.splits RAK3172_Error_t.splits)

section \<open>Hex encoding of keys and payloads\<close>

text \<open>
  C4: For every byte array of length L the encoding loops of the driver produce two
  hexadecimal characters per byte, in input order and with no separator: the string has
  length 2L and decodes, case-insensitively, to the bytes. The key provisioning functions
  (OTAA and ABP) encode in upper case, \<^verbatim>\<open>RAK3172_LoRaWAN_Transmit\<close> in lower case; the
  commands shown are the ones sent when the module accepts each command.
\<close>

theorem hex_encoding_roundtrip:
  assumes accepts: "\<And>t c. fst (m t c) = RAK3172_ERR_OK"
    and port: "Port \<noteq> 0" and len: "Length \<noteq> 0"
  shows
    "length (encode_loop upper (\<lambda>i. bs ! i) (length bs)) = 2 * length bs \<and>
     hex_decode (encode_loop upper (\<lambda>i. bs ! i) (length bs)) = Some bs \<and>
     encode_loop upper p (Suc n) =
       encode_loop upper p n @ [hexdigit upper (unat (p n) div 16), hexdigit upper (unat (p n) mod 16)] \<and>
     set (encode_loop True p n) \<subseteq> set ''0123456789ABCDEF'' \<and>
     set (encode_loop False p n) \<subseteq> set ''0123456789abcdef'' \<and>
     snd (RAK3172_LoRaWAN_SetOTAAKeys m (Some (d\<lparr>LoRaWAN_Join := RAK_JOIN_OTAA\<rparr>))
            (Some DEVEUI) (Some APPEUI) (Some APPKEY) tr) =
       tr @ [Sent (''AT+DEVEUI='' @ encode_loop True DEVEUI 8),
             Sent (''AT+APPEUI='' @ encode_loop True APPEUI 8),
             Sent (''AT+APPKEY='' @ encode_loop True APPKEY 16)] \<and>
     snd (RAK3172_LoRaWAN_SetABPKeys m (Some (d\<lparr>LoRaWAN_Join := RAK_JOIN_ABP\<rparr>))
            (Some APPSKEY) (Some NWKSKEY) (Some DEVADDR) tr) =
       tr @ [Sent (''AT+APPSKEY='' @ encode_loop True APPSKEY 16),
             Sent (''AT+NWKSKEY='' @ encode_loop True NWKSKEY 16),
             Sent (''AT+DEVADDR='' @ encode_loop True DEVADDR 4)] \<and>
     snd (RAK3172_LoRaWAN_Transmit m (Some (d\<lparr>LoRaWAN_isJoined := True\<rparr>)) Port
            (Some Buffer) Length Timeout False Wait env tr) =
       tr @ [Sent ''AT+CFM=0'',
             Sent (''AT+SEND='' @ to_string (uint Port) @ '':'' @ encode_loop False Buffer (unat Length))]"
proof -
  have "map ((!) bs) [0 ..< length bs] = bs"
    by (rule map_nth)
  then have dec: "hex_decode (encode_loop upper (\<lambda>i. bs ! i) (length bs)) = Some bs"
    by (simp add: encode_loop_decode)
  have step: "encode_loop upper p (Suc n) =
       encode_loop upper p n @ [hexdigit upper (unat (p n) div 16), hexdigit upper (unat (p n) mod 16)]"
    by (simp add: sprintf_hex_word8)
  have otaa: "snd (RAK3172_LoRaWAN_SetOTAAKeys m (Some (d\<lparr>LoRaWAN_Join := RAK_JOIN_OTAA\<rparr>))
            (Some DEVEUI) (Some APPEUI) (Some APPKEY) tr) =
       tr @ [Sent (''AT+DEVEUI='' @ encode_loop True DEVEUI 8),
             Sent (''AT+APPEUI='' @ encode_loop True APPEUI 8),
             Sent (''AT+APPKEY='' @ encode_loop True APPKEY 16)]"
    by (simp add: RAK3172_LoRaWAN_SetOTAAKeys_def send_cmd_Some accepts Let_def)
  have abp: "snd (RAK3172_LoRaWAN_SetABPKeys m (Some (d\<lparr>LoRaWAN_Join := RAK_JOIN_ABP\<rparr>))
            (Some APPSKEY) (Some NWKSKEY) (Some DEVADDR) tr) =
       tr @ [Sent (''AT+APPSKEY='' @ encode_loop True APPSKEY 16),
             Sent (''AT+NWKSKEY='' @ encode_loop True NWKSKEY 16),
             Sent (''AT+DEVADDR='' @ encode_loop True DEVADDR 4)]"
    by (simp add: RAK3172_LoRaWAN_SetABPKeys_def send_cmd_Some accepts Let_def)
  have tx: "snd (RAK3172_LoRaWAN_Transmit m (Some (d\<lparr>LoRaWAN_isJoined := True\<rparr>)) Port
            (Some Buffer) Length Timeout False Wait env tr) =
       tr @ [Sent ''AT+CFM=0'',
             Sent (''AT+SEND='' @ to_string (uint Port) @ '':'' @ encode_loop False Buffer (unat Length))]"
    using port len
    by (simp add: RAK3172_LoRaWAN_Transmit_def RAK3172_LoRaWAN_SetConfirmation_def send_cmd_Some
        SendCommand_Some accepts Let_def case_prod_beta to_string_0)
  from dec step otaa abp tx show ?thesis
    by (simp only: encode_loop_length encode_loop_upper_alphabet encode_loop_lower_alphabet simp_thms)
qed

theorem hex_encoding_roundtrip_witness:
  "fst (sim_module ''4'' [] ''AT+CFM=0'') = RAK3172_ERR_OK \<and>
   encode_loop True (\<lambda>i. [0x0A, 0xFF, 0x30] ! i) (length [0x0A, 0xFF, 0x30 :: 8 word]) = ''0AFF30'' \<and>
   hex_decode ''0AFF30'' = Some [0x0A, 0xFF, 0x30] \<and>
   hex_decode ''0aff30'' = Some [0x0A, 0xFF, 0x30] \<and>
   snd (RAK3172_LoRaWAN_Transmit (sim_module ''4'')
          (Some \<lparr>LoRaWAN_Join = RAK_JOIN_OTAA, LoRaWAN_isJoined = True, P2P_isEncryptionEnabled = False\<rparr>)
          1 (Some (\<lambda>i. [0x0A, 0xFF, 0x30] ! i)) 3 0 False False (0, []) []) =
     [Sent ''AT+CFM=0'', Sent ''AT+SEND=1:0aff30'']"
proof -
  have acc: "\<And>t c. fst (sim_module ''4'' t c) = RAK3172_ERR_OK"
    by (simp add: sim_module_def)
  have p: "(1 :: 8 word) \<noteq> 0" and l: "(3 :: 8 word) \<noteq> 0"
    by simp_all
  have e1: "encode_loop True (\<lambda>i. [0x0A, 0xFF, 0x30 :: 8 word] ! i) (length [0x0A, 0xFF, 0x30 :: 8 word]) = ''0AFF30''"
    by (simp add: encode_loop_numeral sprintf_hex_byte hexdigit_def)
  have e2: "encode_loop False (\<lambda>i. [0x0A, 0xFF, 0x30 :: 8 word] ! i) 3 = ''0aff30''"
    by (simp add: encode_loop_numeral sprintf_hex_byte hexdigit_def)
  note inst = hex_encoding_roundtrip [where m = "sim_module ''4''" and Port = 1 and Length = 3
      and upper = True and bs = "[0x0A, 0xFF, 0x30]"
      and d = "\<lparr>LoRaWAN_Join = RAK_JOIN_OTAA, LoRaWAN_isJoined = True, P2P_isEncryptionEnabled = False\<rparr>"
      and tr = "[]" and Buffer = "\<lambda>i. [0x0A, 0xFF, 0x30] ! i" and Timeout = 0 and Wait = False
      and env = "(0, [])", OF acc p l]
  have d1: "hex_decode ''0AFF30'' = Some [0x0A, 0xFF, 0x30]"
    using inst [THEN conjunct2, THEN conjunct1] unfolding e1 .
  have d2: "hex_decode ''0aff30'' = Some [0x0A, 0xFF, 0x30]"
    by (simp add: hexval_def)
  have tx: "snd (RAK3172_LoRaWAN_Transmit (sim_module ''4'')
          (Some \<lparr>LoRaWAN_Join = RAK_JOIN_OTAA, LoRaWAN_isJoined = True, P2P_isEncryptionEnabled = False\<rparr>)
          1 (Some (\<lambda>i. [0x0A, 0xFF, 0x30] ! i)) 3 0 False False (0, []) []) =
     [Sent ''AT+CFM=0'', Sent ''AT+SEND=1:0aff30'']"
    using inst [THEN conjunct2, THEN conjunct2, THEN conjunct2, THEN conjunct2, THEN conjunct2,
        THEN conjunct2, THEN conjunct2]
    by (simp add: e2 to_string_1)
  from acc e1 d1 d2 tx show ?thesis
    by simp
qed

section \<open>Transmit\<close>

text \<open>
  C8: On a device that is not joined, \<^verbatim>\<open>RAK3172_LoRaWAN_Transmit\<close> with port 1, a
  non-\<^verbatim>\<open>NULL\<close> one-byte payload and \<^verbatim>\<open>Confirmed = false\<close> returns
  \<^verbatim>\<open>RAK3172_ERR_NOT_CONNECTED\<close> and hands no command to the Command Engine: the trace is
  unchanged.
\<close>

theorem transmit_not_joined:
  assumes "LoRaWAN_isJoined d = False"
  shows "RAK3172_LoRaWAN_Transmit m (Some d) 1 (Some Buffer) 1 Timeout False Wait env tr =
           (Return RAK3172_ERR_NOT_CONNECTED, tr)"
  using assms by (simp add: RAK3172_LoRaWAN_Transmit_def)

theorem transmit_not_joined_witness:
  "LoRaWAN_isJoined \<lparr>LoRaWAN_Join = RAK_JOIN_OTAA, LoRaWAN_isJoined = False, P2P_isEncryptionEnabled = False\<rparr> = False \<and>
   RAK3172_LoRaWAN_Transmit (sim_module ''4'')
     (Some \<lparr>LoRaWAN_Join = RAK_JOIN_OTAA, LoRaWAN_isJoined = False, P2P_isEncryptionEnabled = False\<rparr>)
     1 (Some (\<lambda>i. 0x01)) 1 0 False False (0, []) [] = (Return RAK3172_ERR_NOT_CONNECTED, [])"
proof -
  have h: "LoRaWAN_isJoined \<lparr>LoRaWAN_Join = RAK_JOIN_OTAA, LoRaWAN_isJoined = False, P2P_isEncryptionEnabled = False\<rparr> = False"
    by simp
  from h transmit_not_joined [OF h] show ?thesis
    by blast
qed

text \<open>
  C1: On a joined device, \<^verbatim>\<open>RAK3172_LoRaWAN_Transmit\<close> with port 5, a \<^verbatim>\<open>NULL\<close>
  payload and length 0 returns \<^verbatim>\<open>RAK3172_ERR_INVALID_ARG\<close>, not success: the first
  guard tests \<^verbatim>\<open>(p_Buffer == NULL) && (Length == 0)\<close>. Beside it, what the neighbouring
  inputs do: a non-\<^verbatim>\<open>NULL\<close> payload of length 0 is a success without a command, and a
  \<^verbatim>\<open>NULL\<close> payload of length 1 passes the guard and is read.
\<close>

theorem transmit_null_payload_zero_length:
  "RAK3172_LoRaWAN_Transmit m (Some (d\<lparr>LoRaWAN_isJoined := True\<rparr>)) 5 None 0 Timeout Confirmed Wait env tr =
     (Return RAK3172_ERR_INVALID_ARG, tr) \<and>
   RAK3172_LoRaWAN_Transmit m (Some (d\<lparr>LoRaWAN_isJoined := True\<rparr>)) 5 (Some Buffer) 0 Timeout Confirmed Wait env tr =
     (Return RAK3172_ERR_OK, tr) \<and>
   RAK3172_LoRaWAN_Transmit m (Some (d\<lparr>LoRaWAN_isJoined := True\<rparr>)) 5 None 1 Timeout Confirmed Wait env tr =
     (Fault, tr)"
  by (simp add: RAK3172_LoRaWAN_Transmit_def)

section \<open>Join\<close>

text \<open>
  C5: \<^verbatim>\<open>RAK3172_LoRaWAN_StartJoin\<close> on a device that is not joined, with no timeout
  and a wait hook supplied: the join command is sent, the loop polls three times until
  the joined flag is set, and the hook is called in none of the rounds (the trace holds
  no \<open>Waited\<close> event).
\<close>

theorem start_join_hook_not_called:
  "RAK3172_LoRaWAN_StartJoin (sim_module ''4'')
     (Some \<lparr>LoRaWAN_Join = RAK_JOIN_OTAA, LoRaWAN_isJoined = False, P2P_isEncryptionEnabled = False\<rparr>)
     0 1 False 8 True (0, [(20000, False), (40000, False), (60000, True)]) [] =
   (Return RAK3172_ERR_OK, [Sent ''AT+JOIN=1:0:8:1''])"
  by (simp add: RAK3172_LoRaWAN_StartJoin_def send_cmd_Some sim_module_def str_find_def npos_def
      to_string_def dec_of_nat.simps)

text \<open>The same for every run: the join loop adds no call of the hook to the trace.\<close>

lemma join_loop_no_hook:
  "Waited \<notin> set tr \<Longrightarrow> Waited \<notin> set (snd (join_loop m (Some d) Timeout TimeNow obs tr))"
  by (induction obs) (auto simp: RAK3172_LoRaWAN_StopJoin_def send_cmd_Some split: if_splits)

theorem start_join_no_hook:
  assumes "Waited \<notin> set tr"
  shows "Waited \<notin> set (snd (RAK3172_LoRaWAN_StartJoin m p_Device Timeout Attempts EnableAutoJoin
            Interval on_Wait env tr))"
proof (cases p_Device)
  case None
  with assms show ?thesis
    by (simp add: RAK3172_LoRaWAN_StartJoin_def)
next
  case (Some d)
  with assms show ?thesis
    using join_loop_no_hook [of "tr @ [Sent c]" m d for c]
    by (simp add: RAK3172_LoRaWAN_StartJoin_def send_cmd_Some)
qed

theorem start_join_no_hook_witness:
  "Waited \<notin> set [Sent ''AT+NJS=?''] \<and>
   Waited \<notin> set (snd (RAK3172_LoRaWAN_StartJoin (sim_module ''4'')
     (Some \<lparr>LoRaWAN_Join = RAK_JOIN_OTAA, LoRaWAN_isJoined = False, P2P_isEncryptionEnabled = False\<rparr>)
     10 3 True 8 True (0, [(20000, False), (40000, True)]) [Sent ''AT+NJS=?'']))"
proof -
  have h: "Waited \<notin> set [Sent ''AT+NJS=?'']"
    by simp
  from h start_join_no_hook [OF h] show ?thesis
    by blast
qed

text \<open>
  The rest of the join procedure: no command when the device is already joined;
  otherwise the join command with the auto-join, interval and attempts parameters comes
  first; the loop returns success in the round that sees the joined flag, sends the
  stop-join command and returns a timeout in the round whose clock reading has reached
  a timeout other than 0, and is still waiting after any number of rounds when the
  timeout is 0 and the flag stays clear.
\<close>

lemma join_loop_waits:
  assumes "\<forall>ob \<in> set pre. \<not> snd ob \<and> \<not> (0 < Timeout \<and> unat Timeout * 1000 \<le> elapsed_ms (fst ob) TimeNow)"
  shows "join_loop m p_Device Timeout TimeNow (pre @ obs) tr = join_loop m p_Device Timeout TimeNow obs tr"
  using assms by (induction pre) auto

lemma join_loop_joined:
  assumes "\<forall>ob \<in> set pre. \<not> snd ob \<and> \<not> (0 < Timeout \<and> unat Timeout * 1000 \<le> elapsed_ms (fst ob) TimeNow)"
    and "\<not> (0 < Timeout \<and> unat Timeout * 1000 \<le> elapsed_ms t TimeNow)"
  shows "join_loop m p_Device Timeout TimeNow (pre @ (t, True) # post) tr = (Return RAK3172_ERR_OK, tr)"
  using assms(2) by (simp add: join_loop_waits [OF assms(1)])

lemma join_loop_timeout:
  assumes "\<forall>ob \<in> set pre. \<not> snd ob \<and> \<not> (0 < Timeout \<and> unat Timeout * 1000 \<le> elapsed_ms (fst ob) TimeNow)"
    and "0 < Timeout" and "unat Timeout * 1000 \<le> elapsed_ms t TimeNow"
  shows "join_loop m (Some d) Timeout TimeNow (pre @ (t, isJoined) # post) tr =
           (Return RAK3172_ERR_TIMEOUT, tr @ [Sent ''AT+JOIN=0:0:7:0''])"
  using assms(2,3)
  by (simp add: join_loop_waits [OF assms(1)] RAK3172_LoRaWAN_StopJoin_def send_cmd_Some)

lemma join_loop_forever:
  assumes "\<forall>ob \<in> set obs. \<not> snd ob"
  shows "join_loop m p_Device 0 TimeNow obs tr = (Pending, tr)"
  using assms by (induction obs) auto

lemma start_join_already_joined:
  assumes "LoRaWAN_isJoined d" and "Attempts \<noteq> 0"
  shows "RAK3172_LoRaWAN_StartJoin m (Some d) Timeout Attempts EnableAutoJoin Interval on_Wait env tr =
           (Return RAK3172_ERR_OK, tr)"
  using assms by (simp add: RAK3172_LoRaWAN_StartJoin_def)

lemma start_join_command:
  assumes "\<not> LoRaWAN_isJoined d" and "Attempts \<noteq> 0"
  shows "\<exists>es. snd (RAK3172_LoRaWAN_StartJoin m (Some d) Timeout Attempts EnableAutoJoin Interval on_Wait env tr) =
           tr @ Sent (''AT+JOIN=1:'' @ to_string (of_bool EnableAutoJoin) @ '':'' @
                      to_string (uint Interval) @ '':'' @ to_string (uint Attempts)) # es"
proof -
  have "\<exists>es. snd (join_loop m (Some d) Timeout TimeNow obs (tr0 @ [e])) = tr0 @ e # es" for TimeNow obs tr0 e
    by (induction obs) (auto simp: RAK3172_LoRaWAN_StopJoin_def send_cmd_Some)
  with assms show ?thesis
    by (simp add: RAK3172_LoRaWAN_StartJoin_def send_cmd_Some)
qed

text \<open>
  The confirmation loop of \<^verbatim>\<open>RAK3172_LoRaWAN_Transmit\<close>, in contrast, calls a
  supplied hook in every round.
\<close>

lemma confirm_loop_keeps_trace:
  "e \<in> set tr \<Longrightarrow> e \<in> set (snd (confirm_loop Wait Timeout Now obs tr))"
proof (induction obs arbitrary: tr)
  case Nil
  then show ?case by simp
next
  case (Cons ob obs)
  obtain q t where ob: "ob = (q, t)"
    by (cases ob)
  from Cons.prems have "e \<in> set (if Wait then tr @ [Waited] else tr)"
    by simp
  then have "e \<in> set (snd (confirm_loop Wait Timeout Now obs (if Wait then tr @ [Waited] else tr)))"
    by (rule Cons.IH)
  with Cons.prems show ?case
    by (cases Wait) (simp_all add: ob Let_def)
qed

lemma confirm_loop_calls_hook:
  "Waited \<in> set (snd (confirm_loop True Timeout Now (ob # obs) tr))"
proof -
  obtain q t where ob: "ob = (q, t)"
    by (cases ob)
  have "Waited \<in> set (tr @ [Waited])"
    by simp
  then have "Waited \<in> set (snd (confirm_loop True Timeout Now obs (tr @ [Waited])))"
    by (rule confirm_loop_keeps_trace)
  then show ?thesis
    by (simp add: ob Let_def)
qed

section \<open>Transmit power\<close>

text \<open>
  C3: When the band query of \<^verbatim>\<open>RAK3172_LoRaWAN_SetTxPwr\<close> succeeds with band
  \<open>Band\<close>, the function sends \<^verbatim>\<open>AT+TXP=\<close> with the index of the specification: for
  EU868 0 from 16 dBm on, 10 below 2 dBm and \<open>(16 - dBm) div 2\<close> between; for US915 0
  from 30 dBm on, 10 below 10 dBm and \<open>(30 - dBm) div 2\<close> between. The index does not
  increase when the requested power increases. For every other band the command is sent
  with index 0 and the call returns what the Command Engine returns for it.
\<close>

theorem set_tx_power_index:
  assumes band: "RAK3172_LoRaWAN_GetBand m (Some d) Target tr = (Return (RAK3172_ERR_OK, Some Band), tr1)"
  shows
    "RAK3172_LoRaWAN_SetTxPwr m (Some d) TxPwr tr =
       (Return (fst (m tr1 (''AT+TXP='' @ to_string (spec_tx_power_index Band (uint TxPwr))))),
        tr1 @ [Sent (''AT+TXP='' @ to_string (spec_tx_power_index Band (uint TxPwr)))]) \<and>
     (\<forall>a b. a \<le> b \<longrightarrow> spec_tx_power_index Band b \<le> spec_tx_power_index Band a) \<and>
     (Band \<noteq> RAK_BAND_EU868 \<and> Band \<noteq> RAK_BAND_US915 \<longrightarrow>
        RAK3172_LoRaWAN_SetTxPwr m (Some d) TxPwr tr =
          (Return (fst (m tr1 ''AT+TXP=0'')), tr1 @ [Sent ''AT+TXP=0'']))"
proof -
  have run: "RAK3172_LoRaWAN_SetTxPwr m (Some d) TxPwr tr =
       (Return (fst (m tr1 (''AT+TXP='' @ to_string (spec_tx_power_index Band (uint TxPwr))))),
        tr1 @ [Sent (''AT+TXP='' @ to_string (spec_tx_power_index Band (uint TxPwr)))])"
    unfolding RAK3172_LoRaWAN_SetTxPwr_def band
    by (simp only: Let_def tx_power_index_code send_cmd_Some prod.case outcome.case
        RAK3172_Error_t.case option.case)
  have other: "Band \<noteq> RAK_BAND_EU868 \<and> Band \<noteq> RAK_BAND_US915 \<longrightarrow>
        spec_tx_power_index Band (uint TxPwr) = 0"
    by (simp add: spec_tx_power_index_def)
  from run other show ?thesis
    by (auto simp: spec_tx_power_index_antimono to_string_0)
qed

theorem set_tx_power_index_witness:
  "RAK3172_LoRaWAN_GetBand (sim_module ''4'')
     (Some \<lparr>LoRaWAN_Join = RAK_JOIN_OTAA, LoRaWAN_isJoined = False, P2P_isEncryptionEnabled = False\<rparr>)
     Target [] = (Return (RAK3172_ERR_OK, Some RAK_BAND_EU868), [Sent ''AT+BAND=?'']) \<and>
   RAK3172_LoRaWAN_SetTxPwr (sim_module ''4'')
     (Some \<lparr>LoRaWAN_Join = RAK_JOIN_OTAA, LoRaWAN_isJoined = False, P2P_isEncryptionEnabled = False\<rparr>)
     7 [] = (Return RAK3172_ERR_OK, [Sent ''AT+BAND=?'', Sent ''AT+TXP=4'']) \<and>
   spec_tx_power_index RAK_BAND_EU868 9 \<le> spec_tx_power_index RAK_BAND_EU868 7"
proof -
  have band: "RAK3172_LoRaWAN_GetBand (sim_module ''4'')
     (Some \<lparr>LoRaWAN_Join = RAK_JOIN_OTAA, LoRaWAN_isJoined = False, P2P_isEncryptionEnabled = False\<rparr>)
     Target [] = (Return (RAK3172_ERR_OK, Some RAK_BAND_EU868), [Sent ''AT+BAND=?''])"
    by (simp add: RAK3172_LoRaWAN_GetBand_def SendCommand_Some sim_module_def stoi_def isspace_def
        isdigit_def digit_val_def)
  note inst = set_tx_power_index [OF band, where TxPwr = 7]
  have idx: "spec_tx_power_index RAK_BAND_EU868 7 = 4"
    by (simp add: spec_tx_power_index_def)
  have ts: "to_string 4 = ''4''"
    by (simp add: to_string_def dec_of_nat.simps)
  have ok: "fst (sim_module ''4'' [Sent ''AT+BAND=?''] ''AT+TXP=4'') = RAK3172_ERR_OK"
    by (simp add: sim_module_def str_find_def npos_def)
  have run: "RAK3172_LoRaWAN_SetTxPwr (sim_module ''4'')
     (Some \<lparr>LoRaWAN_Join = RAK_JOIN_OTAA, LoRaWAN_isJoined = False, P2P_isEncryptionEnabled = False\<rparr>)
     7 [] = (Return RAK3172_ERR_OK, [Sent ''AT+BAND=?'', Sent ''AT+TXP=4''])"
    using inst [THEN conjunct1] by (simp add: idx ts ok)
  have "(7 :: int) \<le> 9"
    by simp
  with inst [THEN conjunct2, THEN conjunct1]
  have mono: "spec_tx_power_index RAK_BAND_EU868 9 \<le> spec_tx_power_index RAK_BAND_EU868 7"
    by blast
  from band run mono show ?thesis
    by blast
qed

section \<open>Receive\<close>

text \<open>
  C7, as amended: for a joined device and \<open>Timeout > 1\<close>, when
  \<^verbatim>\<open>RAK3172_LoRaWAN_Receive\<close> consumes, before its timeout, the metadata line
  \<^verbatim>\<open>+EVT:RX_1, RSSI -60, SNR 7\<close> (the layout its fixed offsets fit: the RSSI 7 characters
  after the first comma, the SNR 6 characters after the last comma) and then the data line
  \<^verbatim>\<open>+EVT:UNICAST:48656C6C6F\<close>, it stores RSSI -60 and SNR 7 through the pointers that
  are not \<^verbatim>\<open>NULL\<close> and returns success on the unicast line with the payload
  \<^verbatim>\<open>48656C6C6F\<close>, the text after the last colon, whose bytes decode to \<open>Hello\<close>.
\<close>

theorem receive_metadata_then_unicast:
  assumes joined: "LoRaWAN_isJoined d"
    and timeout: "1 < Timeout"
    and in_time: "elapsed_ms t1 (start_ms t0) div 1000 < unat Timeout"
  shows
    "RAK3172_LoRaWAN_Receive (Some d) Target p_RSSI p_SNR Timeout
       (t0, (Some ''+EVT:RX_1, RSSI -60, SNR 7'', t1) # (Some ''+EVT:UNICAST:48656C6C6F'', t2) # obs) =
     Return (RAK3172_ERR_OK, Some ''48656C6C6F'',
             if p_RSSI = NULL then None else Some (- 60),
             if p_SNR = NULL then None else Some 7) \<and>
     hex_decode ''48656C6C6F'' = Some (map of_char ''Hello'')"
proof -
  from timeout have t: "\<not> Timeout \<le> 1"
    by simp
  from in_time have nt: "\<not> unat Timeout \<le> elapsed_ms t1 (start_ms t0) div 1000"
    by simp
  have "RAK3172_LoRaWAN_Receive (Some d) Target p_RSSI p_SNR Timeout
       (t0, (Some ''+EVT:RX_1, RSSI -60, SNR 7'', t1) # (Some ''+EVT:UNICAST:48656C6C6F'', t2) # obs) =
     Return (RAK3172_ERR_OK, Some ''48656C6C6F'',
             if p_RSSI = NULL then None else Some (- 60),
             if p_SNR = NULL then None else Some 7)"
    using joined t nt
    by (simp add: RAK3172_LoRaWAN_Receive_def rx_metadata_def str_find_def str_find_last_of_def
        substr_def to_int_def to_size_t_def npos_def stoi_def isspace_def isdigit_def digit_val_def)
  moreover have "hex_decode ''48656C6C6F'' = Some (map of_char ''Hello'')"
    by (simp add: hexval_def)
  ultimately show ?thesis
    by blast
qed

theorem receive_metadata_then_unicast_witness:
  "LoRaWAN_isJoined \<lparr>LoRaWAN_Join = RAK_JOIN_OTAA, LoRaWAN_isJoined = True, P2P_isEncryptionEnabled = False\<rparr> \<and>
   (1 :: 32 word) < 10 \<and>
   elapsed_ms 1000000 (start_ms 0) div 1000 < unat (10 :: 32 word) \<and>
   RAK3172_LoRaWAN_Receive
     (Some \<lparr>LoRaWAN_Join = RAK_JOIN_OTAA, LoRaWAN_isJoined = True, P2P_isEncryptionEnabled = False\<rparr>)
     Target Target Target 10
     (0, [(Some ''+EVT:RX_1, RSSI -60, SNR 7'', 1000000), (Some ''+EVT:UNICAST:48656C6C6F'', 2000000)]) =
   Return (RAK3172_ERR_OK, Some ''48656C6C6F'', Some (- 60), Some 7)"
proof -
  have j: "LoRaWAN_isJoined \<lparr>LoRaWAN_Join = RAK_JOIN_OTAA, LoRaWAN_isJoined = True, P2P_isEncryptionEnabled = False\<rparr>"
    by simp
  have t: "(1 :: 32 word) < 10"
    by (simp add: word_less_nat_alt)
  have e: "elapsed_ms 1000000 (start_ms 0) div 1000 < unat (10 :: 32 word)"
    by (simp add: elapsed_ms_def start_ms_def)
  from receive_metadata_then_unicast [OF j t e, where p_RSSI = Target and p_SNR = Target and ?t2.0 = 2000000 and obs = "[]"]
  have "RAK3172_LoRaWAN_Receive
     (Some \<lparr>LoRaWAN_Join = RAK_JOIN_OTAA, LoRaWAN_isJoined = True, P2P_isEncryptionEnabled = False\<rparr>)
     Target Target Target 10
     (0, [(Some ''+EVT:RX_1, RSSI -60, SNR 7'', 1000000), (Some ''+EVT:UNICAST:48656C6C6F'', 2000000)]) =
   Return (RAK3172_ERR_OK, Some ''48656C6C6F'', Some (- 60), Some 7)"
    by simp
  with j t e show ?thesis
    by blast
qed

text \<open>
  C7 as the specification words it does not hold: with the metadata line
  \<^verbatim>\<open>+EVT:RX:-42,10,RSSI -60,SNR 7\<close> the text at offset 7 after the first comma is
  \<^verbatim>\<open>I -60,SNR 7\<close>, and \<^verbatim>\<open>std::stoi\<close> throws \<^verbatim>\<open>std::invalid_argument\<close>.
\<close>

theorem receive_spec_example_throws:
  "RAK3172_LoRaWAN_Receive
     (Some \<lparr>LoRaWAN_Join = RAK_JOIN_OTAA, LoRaWAN_isJoined = True, P2P_isEncryptionEnabled = False\<rparr>)
     Target Target Target 10
     (0, [(Some ''+EVT:RX:-42,10,RSSI -60,SNR 7'', 1000000), (Some ''+EVT:UNICAST:48656C6C6F'', 2000000)]) =
   Throw invalid_argument"
  by (simp add: RAK3172_LoRaWAN_Receive_def rx_metadata_def str_find_def str_find_last_of_def substr_def
      to_int_def to_size_t_def npos_def stoi_def isspace_def isdigit_def digit_val_def word_le_nat_alt)

section \<open>Sub-band\<close>

text \<open>
  The getter returns in every case (its loop ends), it never reports
  \<^verbatim>\<open>RAK_SUB_BAND_1\<close>, whatever the module answers, and the setter fails for a band
  without sub-bands.
\<close>

theorem get_sub_band_never_sub_band_1:
  assumes "RAK3172_LoRaWAN_GetSubBand m p_Device p_Band tr = (Return (RAK3172_ERR_OK, Some b), tr')"
  shows "b \<noteq> RAK_SUB_BAND_1"
proof
  assume b: "b = RAK_SUB_BAND_1"
  have *: "\<And>v. (word_of_int v :: 32 word) \<noteq> 0 \<Longrightarrow>
              \<exists>k\<le>31. shift_loop (word_of_int v) 1 = Some (1, 1 + of_nat k)"
    by (rule shift_loop_from_1)
  from assms b show False
    by (auto simp: RAK3172_LoRaWAN_GetSubBand_def Let_def shifts_positive
        split: if_splits prod.splits outcome.splits option.splits sum.splits RAK3172_Error_t.splits
        dest!: *)
qed

theorem get_sub_band_never_sub_band_1_witness:
  "RAK3172_LoRaWAN_GetSubBand (sim_module ''5'')
     (Some \<lparr>LoRaWAN_Join = RAK_JOIN_OTAA, LoRaWAN_isJoined = False, P2P_isEncryptionEnabled = False\<rparr>)
     Target [Sent ''AT+MASK=0001''] =
     (Return (RAK3172_ERR_OK, Some RAK_SUB_BAND_2), [Sent ''AT+MASK=0001'', Sent ''AT+BAND=?'', Sent ''AT+MASK=?'']) \<and>
   RAK_SUB_BAND_2 \<noteq> RAK_SUB_BAND_1"
proof -
  have run: "RAK3172_LoRaWAN_GetSubBand (sim_module ''5'')
     (Some \<lparr>LoRaWAN_Join = RAK_JOIN_OTAA, LoRaWAN_isJoined = False, P2P_isEncryptionEnabled = False\<rparr>)
     Target [Sent ''AT+MASK=0001''] =
     (Return (RAK3172_ERR_OK, Some RAK_SUB_BAND_2), [Sent ''AT+MASK=0001'', Sent ''AT+BAND=?'', Sent ''AT+MASK=?''])"
    by (simp add: RAK3172_LoRaWAN_GetSubBand_def RAK3172_LoRaWAN_GetBand_def
        SendCommand_Some sim_module_def stoi_def isspace_def isdigit_def digit_val_def
        shift_loop.simps)
  from run get_sub_band_never_sub_band_1 [OF run] show ?thesis
    by blast
qed

theorem get_sub_band_returns:
  "fst (RAK3172_LoRaWAN_GetSubBand m p_Device p_Band tr) \<noteq> Pending"
proof -
  have *: "\<And>v. (word_of_int v :: 32 word) \<noteq> 0 \<Longrightarrow>
              \<exists>k\<le>31. shift_loop (word_of_int v) 1 = Some (1, 1 + of_nat k)"
    by (rule shift_loop_from_1)
  show ?thesis
    by (auto simp: RAK3172_LoRaWAN_GetSubBand_def RAK3172_LoRaWAN_GetBand_def RAK3172_SendCommand_def Let_def
        split: if_splits prod.splits outcome.splits option.splits sum.splits RAK3172_Error_t.splits
        dest!: *)
qed

lemma set_sub_band_unsupported_band:
  assumes "RAK3172_LoRaWAN_GetBand m p_Device Target tr = (Return (RAK3172_ERR_OK, Some Dummy), tr1)"
    and "Dummy \<noteq> RAK_BAND_US915" and "Dummy \<noteq> RAK_BAND_AU915" and "Dummy \<noteq> RAK_BAND_CN470"
    and "Band \<noteq> RAK_SUB_BAND_NONE"
  shows "RAK3172_LoRaWAN_SetSubBand m p_Device Band tr = (Return RAK3172_ERR_FAIL, tr1)"
  using assms by (simp add: RAK3172_LoRaWAN_SetSubBand_def)

text \<open>
  C2: The round trip of the sub-band does not hold. On a US915 module that answers
  \<^verbatim>\<open>AT+MASK=?\<close> with the mask last written, \<^verbatim>\<open>RAK3172_LoRaWAN_SetSubBand\<close> with
  \<^verbatim>\<open>RAK_SUB_BAND_1\<close> succeeds and writes the mask \<^verbatim>\<open>0001\<close>, and
  \<^verbatim>\<open>RAK3172_LoRaWAN_GetSubBand\<close> then returns \<^verbatim>\<open>RAK_SUB_BAND_2\<close>: the getter's
  counter starts at 1 where the setter shifts by the ordinal minus 2.
\<close>

theorem sub_band_round_trip_off_by_one:
  "RAK3172_LoRaWAN_SetSubBand (sim_module ''5'')
     (Some \<lparr>LoRaWAN_Join = RAK_JOIN_OTAA, LoRaWAN_isJoined = False, P2P_isEncryptionEnabled = False\<rparr>)
     RAK_SUB_BAND_1 [] =
     (Return RAK3172_ERR_OK, [Sent ''AT+BAND=?'', Sent ''AT+MASK=0001'']) \<and>
   RAK3172_LoRaWAN_GetSubBand (sim_module ''5'')
     (Some \<lparr>LoRaWAN_Join = RAK_JOIN_OTAA, LoRaWAN_isJoined = False, P2P_isEncryptionEnabled = False\<rparr>)
     Target [Sent ''AT+BAND=?'', Sent ''AT+MASK=0001''] =
     (Return (RAK3172_ERR_OK, Some RAK_SUB_BAND_2),
      [Sent ''AT+BAND=?'', Sent ''AT+MASK=0001'', Sent ''AT+BAND=?'', Sent ''AT+MASK=?''])"
  by (simp add: RAK3172_LoRaWAN_SetSubBand_def RAK3172_LoRaWAN_GetSubBand_def RAK3172_LoRaWAN_GetBand_def
      SendCommand_Some send_cmd_Some sim_module_def stoi_def isspace_def isdigit_def digit_val_def
      sprintf_hex_def hex_of_nat.simps hexdigit_def shift_loop.simps str_find_def npos_def Let_def replicate_numeral)

section \<open>Accessors\<close>

text \<open>
  C6, as amended: on a valid device each of SetPNM, SetConfirmation, SetBand, SetRX1Delay,
  SetRX2Delay, SetADR, SetJoinMode and SetDataRate (for a data rate up to 7; none beyond)
  hands exactly one command to the Command Engine, and each of GetRetries, GetPNM,
  GetConfirmation, GetBand, GetDataRate, GetADR, GetJoinMode (with an output pointer that
  is not \<^verbatim>\<open>NULL\<close>), GetSNR and GetRSSI sends exactly one \<^verbatim>\<open><KEY>=?\<close> query and, when the
  module answers it with a value that \<^verbatim>\<open>std::stoi\<close> parses, stores the parsed value
  in the type of the result. The other accessors make two round trips, each an exact
  sequence. SetRetries (up to 7 retries) sends \<^verbatim>\<open>AT+CFM=\<close> and, when that succeeded,
  \<^verbatim>\<open>AT+RETY=\<close> with the count, and returns the result of the last command sent.
  SetTxPwr, SetSubBand, GetSubBand and GetDuty first query \<^verbatim>\<open>AT+BAND=?\<close> and stop
  there when the query fails or its answer does not parse. With the band known, SetTxPwr
  sends \<^verbatim>\<open>AT+TXP=\<close> with the index and returns that command's result; SetSubBand (no
  command at all for NONE) sends \<^verbatim>\<open>AT+MASK=\<close> with the mask for US915, AU915 and
  CN470, unless the sub-band is beyond 9 on a band other than CN470 (invalid argument),
  and fails for every other band; GetSubBand reports NONE for a band without sub-bands
  and otherwise sends the query \<^verbatim>\<open>AT+MASK=?\<close> and computes the sub-band from the parsed
  mask; GetDuty returns an invalid-argument error for a band other than EU868, RU864 and
  EU433 and otherwise sends the query \<^verbatim>\<open>AT+DUTYTIME=?\<close> and stores the parsed value as
  a byte. For these four the statement also keeps the bound: after the band query at most
  one more command.
\<close>

theorem accessor_round_trips:
  "RAK3172_LoRaWAN_SetPNM m (Some d) Enable tr =
       (fst (m tr (''AT+PNM='' @ to_string (of_bool Enable))), tr @ [Sent (''AT+PNM='' @ to_string (of_bool Enable))]) \<and>
     RAK3172_LoRaWAN_SetConfirmation m (Some d) Enable tr =
       (fst (m tr (''AT+CFM='' @ to_string (of_bool Enable))), tr @ [Sent (''AT+CFM='' @ to_string (of_bool Enable))]) \<and>
     RAK3172_LoRaWAN_SetBand m (Some d) Band tr =
       (fst (m tr (''AT+BAND='' @ to_string (uint (word_of_int Band :: 8 word)))), tr @ [Sent (''AT+BAND='' @ to_string (uint (word_of_int Band :: 8 word)))]) \<and>
     RAK3172_LoRaWAN_SetRX1Delay m (Some d) Delay tr =
       (fst (m tr (''AT+RX1DL='' @ to_string (uint Delay))), tr @ [Sent (''AT+RX1DL='' @ to_string (uint Delay))]) \<and>
     RAK3172_LoRaWAN_SetRX2Delay m (Some d) Delay tr =
       (fst (m tr (''AT+RX2DL='' @ to_string (uint Delay))), tr @ [Sent (''AT+RX2DL='' @ to_string (uint Delay))]) \<and>
     RAK3172_LoRaWAN_SetADR m (Some d) Enable tr =
       (fst (m tr (''AT+ADR='' @ to_string (of_bool Enable))), tr @ [Sent (''AT+ADR='' @ to_string (of_bool Enable))]) \<and>
     RAK3172_LoRaWAN_SetJoinMode m (Some d) Mode tr =
       (fst (m tr (''AT+NJM='' @ to_string Mode)), tr @ [Sent (''AT+NJM='' @ to_string Mode)]) \<and>
     RAK3172_LoRaWAN_SetDataRate m (Some d) DR tr =
       (if RAK_DR_7 < DR then (RAK3172_ERR_INVALID_ARG, tr)
        else (fst (m tr (''AT+DR='' @ to_string DR)), tr @ [Sent (''AT+DR='' @ to_string DR)])) \<and>
     snd (RAK3172_LoRaWAN_GetRetries m (Some d) Target tr) = tr @ [Sent ''AT+RETY=?''] \<and>
     (\<forall>Value Status v. m tr ''AT+RETY=?'' = (RAK3172_ERR_OK, Value, Status) \<and> stoi Value = Inr v \<longrightarrow>
        fst (RAK3172_LoRaWAN_GetRetries m (Some d) Target tr) = Return (RAK3172_ERR_OK, Some (word_of_int v))) \<and>
     snd (RAK3172_LoRaWAN_GetPNM m (Some d) Target tr) = tr @ [Sent ''AT+PNM=?''] \<and>
     (\<forall>Value Status v. m tr ''AT+PNM=?'' = (RAK3172_ERR_OK, Value, Status) \<and> stoi Value = Inr v \<longrightarrow>
        fst (RAK3172_LoRaWAN_GetPNM m (Some d) Target tr) = Return (RAK3172_ERR_OK, Some (v \<noteq> 0))) \<and>
     snd (RAK3172_LoRaWAN_GetConfirmation m (Some d) Target tr) = tr @ [Sent ''AT+CFM=?''] \<and>
     (\<forall>Value Status v. m tr ''AT+CFM=?'' = (RAK3172_ERR_OK, Value, Status) \<and> stoi Value = Inr v \<longrightarrow>
        fst (RAK3172_LoRaWAN_GetConfirmation m (Some d) Target tr) = Return (RAK3172_ERR_OK, Some (v \<noteq> 0))) \<and>
     snd (RAK3172_LoRaWAN_GetBand m (Some d) Target tr) = tr @ [Sent ''AT+BAND=?''] \<and>
     (\<forall>Value Status v. m tr ''AT+BAND=?'' = (RAK3172_ERR_OK, Value, Status) \<and> stoi Value = Inr v \<longrightarrow>
        fst (RAK3172_LoRaWAN_GetBand m (Some d) Target tr) = Return (RAK3172_ERR_OK, Some (v))) \<and>
     snd (RAK3172_LoRaWAN_GetDataRate m (Some d) Target tr) = tr @ [Sent ''AT+DR=?''] \<and>
     (\<forall>Value Status v. m tr ''AT+DR=?'' = (RAK3172_ERR_OK, Value, Status) \<and> stoi Value = Inr v \<longrightarrow>
        fst (RAK3172_LoRaWAN_GetDataRate m (Some d) Target tr) = Return (RAK3172_ERR_OK, Some (v))) \<and>
     snd (RAK3172_LoRaWAN_GetADR m (Some d) Target tr) = tr @ [Sent ''AT+ADR=?''] \<and>
     (\<forall>Value Status v. m tr ''AT+ADR=?'' = (RAK3172_ERR_OK, Value, Status) \<and> stoi Value = Inr v \<longrightarrow>
        fst (RAK3172_LoRaWAN_GetADR m (Some d) Target tr) = Return (RAK3172_ERR_OK, Some (v \<noteq> 0))) \<and>
     snd (RAK3172_LoRaWAN_GetJoinMode m (Some d) Target tr) = tr @ [Sent ''AT+NJM=?''] \<and>
     (\<forall>Value Status v. m tr ''AT+NJM=?'' = (RAK3172_ERR_OK, Value, Status) \<and> stoi Value = Inr v \<longrightarrow>
        fst (RAK3172_LoRaWAN_GetJoinMode m (Some d) Target tr) = Return (RAK3172_ERR_OK, Some (v))) \<and>
     snd (RAK3172_LoRaWAN_GetSNR m (Some d) p tr) = tr @ [Sent ''AT+SNR=?''] \<and>
     (\<forall>Value Status v. m tr ''AT+SNR=?'' = (RAK3172_ERR_OK, Value, Status) \<and> stoi Value = Inr v \<longrightarrow>
        fst (RAK3172_LoRaWAN_GetSNR m (Some d) Target tr) = Return (RAK3172_ERR_OK, Some (word_of_int v))) \<and>
     snd (RAK3172_LoRaWAN_GetRSSI m (Some d) p tr) = tr @ [Sent ''AT+RSSI=?''] \<and>
     (\<forall>Value Status v. m tr ''AT+RSSI=?'' = (RAK3172_ERR_OK, Value, Status) \<and> stoi Value = Inr v \<longrightarrow>
        fst (RAK3172_LoRaWAN_GetRSSI m (Some d) Target tr) = Return (RAK3172_ERR_OK, Some (sint (word_of_int v :: 8 word)))) \<and>
     snd (RAK3172_LoRaWAN_SetRetries m (Some d) Retries tr) =
       (if 7 < Retries then tr
        else if fst (m tr (''AT+CFM='' @ to_string (of_bool (0 < Retries)))) = RAK3172_ERR_OK
        then tr @ [Sent (''AT+CFM='' @ to_string (of_bool (0 < Retries))),
                   Sent (''AT+RETY='' @ to_string (uint Retries))]
        else tr @ [Sent (''AT+CFM='' @ to_string (of_bool (0 < Retries)))]) \<and>
     (\<exists>cs. snd (RAK3172_LoRaWAN_SetTxPwr m (Some d) TxPwr tr) = tr @ Sent ''AT+BAND=?'' # cs \<and> length cs \<le> 1) \<and>
     (\<exists>cs. snd (RAK3172_LoRaWAN_GetSubBand m (Some d) Target tr) = tr @ Sent ''AT+BAND=?'' # cs \<and> length cs \<le> 1) \<and>
     (\<exists>cs. snd (RAK3172_LoRaWAN_GetDuty m (Some d) p tr) = tr @ Sent ''AT+BAND=?'' # cs \<and> length cs \<le> 1) \<and>
     snd (RAK3172_LoRaWAN_SetSubBand m (Some d) RAK_SUB_BAND_NONE tr) = tr \<and>
     (SubBand \<noteq> RAK_SUB_BAND_NONE \<longrightarrow>
        (\<exists>cs. snd (RAK3172_LoRaWAN_SetSubBand m (Some d) SubBand tr) = tr @ Sent ''AT+BAND=?'' # cs \<and> length cs \<le> 1)) \<and>
     RAK3172_LoRaWAN_SetRetries m (Some d) Retries tr =
       (if 7 < Retries then (RAK3172_ERR_INVALID_ARG, tr)
        else if fst (m tr (''AT+CFM='' @ to_string (of_bool (0 < Retries)))) \<noteq> RAK3172_ERR_OK
        then (fst (m tr (''AT+CFM='' @ to_string (of_bool (0 < Retries)))),
              tr @ [Sent (''AT+CFM='' @ to_string (of_bool (0 < Retries)))])
        else (fst (m (tr @ [Sent (''AT+CFM='' @ to_string (of_bool (0 < Retries)))])
                     (''AT+RETY='' @ to_string (uint Retries))),
              tr @ [Sent (''AT+CFM='' @ to_string (of_bool (0 < Retries))),
                    Sent (''AT+RETY='' @ to_string (uint Retries))])) \<and>
     RAK3172_LoRaWAN_SetTxPwr m (Some d) TxPwr tr =
       (case m tr ''AT+BAND=?'' of
          (Error, Value, Status) \<Rightarrow>
            if Error \<noteq> RAK3172_ERR_OK then (Return Error, tr @ [Sent ''AT+BAND=?''])
            else (case stoi Value of
                    Inl e \<Rightarrow> (Throw e, tr @ [Sent ''AT+BAND=?''])
                  | Inr Band \<Rightarrow>
                      (Return (fst (m (tr @ [Sent ''AT+BAND=?''])
                                      (''AT+TXP='' @ to_string (spec_tx_power_index Band (uint TxPwr))))),
                       tr @ [Sent ''AT+BAND=?'',
                             Sent (''AT+TXP='' @ to_string (spec_tx_power_index Band (uint TxPwr)))]))) \<and>
     RAK3172_LoRaWAN_GetSubBand m (Some d) Target tr =
       (case m tr ''AT+BAND=?'' of
          (Error, Value, Status) \<Rightarrow>
            if Error \<noteq> RAK3172_ERR_OK then (Return (Error, None), tr @ [Sent ''AT+BAND=?''])
            else (case stoi Value of
                    Inl e \<Rightarrow> (Throw e, tr @ [Sent ''AT+BAND=?''])
                  | Inr Band \<Rightarrow>
                      if Band \<noteq> RAK_BAND_US915 \<and> Band \<noteq> RAK_BAND_AU915 \<and> Band \<noteq> RAK_BAND_CN470
                      then (Return (RAK3172_ERR_OK, Some RAK_SUB_BAND_NONE), tr @ [Sent ''AT+BAND=?''])
                      else (case m (tr @ [Sent ''AT+BAND=?'']) ''AT+MASK=?'' of
                              (Error2, Value2, Status2) \<Rightarrow>
                                (if Error2 \<noteq> RAK3172_ERR_OK then Return (Error2, None)
                                 else (case stoi Value2 of
                                         Inl e \<Rightarrow> Throw e
                                       | Inr v \<Rightarrow>
                                           if (word_of_int v :: 32 word) = 0
                                           then Return (RAK3172_ERR_OK, Some RAK_SUB_BAND_ALL)
                                           else (case shift_loop (word_of_int v) 1 of
                                                   None \<Rightarrow> Pending
                                                 | Some (Mask, Shifts) \<Rightarrow>
                                                     Return (RAK3172_ERR_OK, Some (uint Shifts + 2)))),
                                 tr @ [Sent ''AT+BAND=?'', Sent ''AT+MASK=?''])))) \<and>
     RAK3172_LoRaWAN_GetDuty m (Some d) p tr =
       (case m tr ''AT+BAND=?'' of
          (Error, Value, Status) \<Rightarrow>
            if Error \<noteq> RAK3172_ERR_OK then (Return (Error, None), tr @ [Sent ''AT+BAND=?''])
            else (case stoi Value of
                    Inl e \<Rightarrow> (Throw e, tr @ [Sent ''AT+BAND=?''])
                  | Inr Band \<Rightarrow>
                      if Band \<noteq> RAK_BAND_EU868 \<and> Band \<noteq> RAK_BAND_RU864 \<and> Band \<noteq> RAK_BAND_EU433
                      then (Return (RAK3172_ERR_INVALID_ARG, None), tr @ [Sent ''AT+BAND=?''])
                      else (case m (tr @ [Sent ''AT+BAND=?'']) ''AT+DUTYTIME=?'' of
                              (Error2, Value2, Status2) \<Rightarrow>
                                (if Error2 \<noteq> RAK3172_ERR_OK then Return (Error2, None)
                                 else (case stoi Value2 of
                                         Inl e \<Rightarrow> Throw e
                                       | Inr v \<Rightarrow>
                                           if p = NULL then Fault
                                           else Return (RAK3172_ERR_OK, Some (word_of_int v))),
                                 tr @ [Sent ''AT+BAND=?'', Sent ''AT+DUTYTIME=?''])))) \<and>
     RAK3172_LoRaWAN_SetSubBand m (Some d) SubBand tr =
       (if SubBand = RAK_SUB_BAND_NONE then (Return RAK3172_ERR_OK, tr)
        else (case m tr ''AT+BAND=?'' of
          (Error, Value, Status) \<Rightarrow>
            if Error \<noteq> RAK3172_ERR_OK then (Return Error, tr @ [Sent ''AT+BAND=?''])
            else (case stoi Value of
                    Inl e \<Rightarrow> (Throw e, tr @ [Sent ''AT+BAND=?''])
                  | Inr Band \<Rightarrow>
                      if Band = RAK_BAND_US915 \<or> Band = RAK_BAND_AU915 \<or> Band = RAK_BAND_CN470 then
                        (if RAK_SUB_BAND_9 < SubBand \<and> Band \<noteq> RAK_BAND_CN470
                         then (Return RAK3172_ERR_INVALID_ARG, tr @ [Sent ''AT+BAND=?''])
                         else if SubBand = RAK_SUB_BAND_ALL
                         then (Return (fst (m (tr @ [Sent ''AT+BAND=?'']) ''AT+MASK=0000'')),
                               tr @ [Sent ''AT+BAND=?'', Sent ''AT+MASK=0000''])
                         else (Return (fst (m (tr @ [Sent ''AT+BAND=?''])
                                 (''AT+MASK='' @ sprintf_hex True 4 (unat (push_bit (nat (SubBand - 2)) (1 :: 32 word)))))),
                               tr @ [Sent ''AT+BAND=?'',
                                     Sent (''AT+MASK='' @ sprintf_hex True 4 (unat (push_bit (nat (SubBand - 2)) (1 :: 32 word))))]))
                      else (Return RAK3172_ERR_FAIL, tr @ [Sent ''AT+BAND=?'']))))"
  by (intro conjI)
    (rule set_pnm_trip |
     rule set_confirmation_trip |
     rule set_band_trip |
     rule set_rx1_delay_trip |
     rule set_rx2_delay_trip |
     rule set_adr_trip |
     rule set_join_mode_trip |
     rule set_data_rate_trip |
     rule get_retries_trip |
     rule get_retries_parsed |
     rule get_pnm_trip |
     rule get_pnm_parsed |
     rule get_confirmation_trip |
     rule get_confirmation_parsed |
     rule get_band_trip |
     rule get_band_parsed |
     rule get_data_rate_trip |
     rule get_data_rate_parsed |
     rule get_adr_trip |
     rule get_adr_parsed |
     rule get_join_mode_trip |
     rule get_join_mode_parsed |
     rule get_snr_trip |
     rule get_snr_parsed |
     rule get_rssi_trip |
     rule get_rssi_parsed |
     rule set_retries_trips |
     rule set_tx_pwr_trips |
     rule get_sub_band_trips |
     rule get_duty_trips |
     rule set_sub_band_none_trips |
     rule set_sub_band_trips |
     rule set_retries_exact |
     rule set_tx_pwr_exact |
     rule get_sub_band_exact |
     rule get_duty_exact |
     rule set_sub_band_exact)+

theorem accessor_round_trips_witness:
  "stoi ''0'' = Inr 0 \<and>
   sim_module ''0'' [] ''AT+RETY=?'' = (RAK3172_ERR_OK, ''0'', ''OK'') \<and>
   fst (RAK3172_LoRaWAN_GetRetries (sim_module ''0'') (Some \<lparr>LoRaWAN_Join = RAK_JOIN_OTAA, LoRaWAN_isJoined = False, P2P_isEncryptionEnabled = False\<rparr>) Target []) = Return (RAK3172_ERR_OK, Some (word_of_int (0 :: int))) \<and>
   sim_module ''0'' [] ''AT+PNM=?'' = (RAK3172_ERR_OK, ''0'', ''OK'') \<and>
   fst (RAK3172_LoRaWAN_GetPNM (sim_module ''0'') (Some \<lparr>LoRaWAN_Join = RAK_JOIN_OTAA, LoRaWAN_isJoined = False, P2P_isEncryptionEnabled = False\<rparr>) Target []) = Return (RAK3172_ERR_OK, Some ((0 :: int) \<noteq> 0)) \<and>
   sim_module ''0'' [] ''AT+CFM=?'' = (RAK3172_ERR_OK, ''0'', ''OK'') \<and>
   fst (RAK3172_LoRaWAN_GetConfirmation (sim_module ''0'') (Some \<lparr>LoRaWAN_Join = RAK_JOIN_OTAA, LoRaWAN_isJoined = False, P2P_isEncryptionEnabled = False\<rparr>) Target []) = Return (RAK3172_ERR_OK, Some ((0 :: int) \<noteq> 0)) \<and>
   sim_module ''0'' [] ''AT+BAND=?'' = (RAK3172_ERR_OK, ''0'', ''OK'') \<and>
   fst (RAK3172_LoRaWAN_GetBand (sim_module ''0'') (Some \<lparr>LoRaWAN_Join = RAK_JOIN_OTAA, LoRaWAN_isJoined = False, P2P_isEncryptionEnabled = False\<rparr>) Target []) = Return (RAK3172_ERR_OK, Some ((0 :: int))) \<and>
   sim_module ''0'' [] ''AT+DR=?'' = (RAK3172_ERR_OK, ''0'', ''OK'') \<and>
   fst (RAK3172_LoRaWAN_GetDataRate (sim_module ''0'') (Some \<lparr>LoRaWAN_Join = RAK_JOIN_OTAA, LoRaWAN_isJoined = False, P2P_isEncryptionEnabled = False\<rparr>) Target []) = Return (RAK3172_ERR_OK, Some ((0 :: int))) \<and>
   sim_module ''0'' [] ''AT+ADR=?'' = (RAK3172_ERR_OK, ''0'', ''OK'') \<and>
   fst (RAK3172_LoRaWAN_GetADR (sim_module ''0'') (Some \<lparr>LoRaWAN_Join = RAK_JOIN_OTAA, LoRaWAN_isJoined = False, P2P_isEncryptionEnabled = False\<rparr>) Target []) = Return (RAK3172_ERR_OK, Some ((0 :: int) \<noteq> 0)) \<and>
   sim_module ''0'' [] ''AT+NJM=?'' = (RAK3172_ERR_OK, ''0'', ''OK'') \<and>
   fst (RAK3172_LoRaWAN_GetJoinMode (sim_module ''0'') (Some \<lparr>LoRaWAN_Join = RAK_JOIN_OTAA, LoRaWAN_isJoined = False, P2P_isEncryptionEnabled = False\<rparr>) Target []) = Return (RAK3172_ERR_OK, Some ((0 :: int))) \<and>
   sim_module ''0'' [] ''AT+SNR=?'' = (RAK3172_ERR_OK, ''0'', ''OK'') \<and>
   fst (RAK3172_LoRaWAN_GetSNR (sim_module ''0'') (Some \<lparr>LoRaWAN_Join = RAK_JOIN_OTAA, LoRaWAN_isJoined = False, P2P_isEncryptionEnabled = False\<rparr>) Target []) = Return (RAK3172_ERR_OK, Some (word_of_int (0 :: int))) \<and>
   sim_module ''0'' [] ''AT+RSSI=?'' = (RAK3172_ERR_OK, ''0'', ''OK'') \<and>
   fst (RAK3172_LoRaWAN_GetRSSI (sim_module ''0'') (Some \<lparr>LoRaWAN_Join = RAK_JOIN_OTAA, LoRaWAN_isJoined = False, P2P_isEncryptionEnabled = False\<rparr>) Target []) = Return (RAK3172_ERR_OK, Some (sint (word_of_int (0 :: int) :: 8 word))) \<and>
   RAK_SUB_BAND_1 \<noteq> RAK_SUB_BAND_NONE \<and>
   (\<exists>cs. snd (RAK3172_LoRaWAN_SetSubBand (sim_module ''0'') (Some \<lparr>LoRaWAN_Join = RAK_JOIN_OTAA, LoRaWAN_isJoined = False, P2P_isEncryptionEnabled = False\<rparr>) RAK_SUB_BAND_1 []) = [] @ Sent ''AT+BAND=?'' # cs \<and> length cs \<le> 1) \<and>
   sim_module ''0'' ([] @ [Sent ''AT+BAND=?'']) ''AT+DUTYTIME=?'' = (RAK3172_ERR_OK, ''0'', ''OK'') \<and>
   RAK3172_LoRaWAN_GetDuty (sim_module ''0'') (Some \<lparr>LoRaWAN_Join = RAK_JOIN_OTAA, LoRaWAN_isJoined = False, P2P_isEncryptionEnabled = False\<rparr>) Target [] =
     (Return (RAK3172_ERR_OK, Some (word_of_int (0 :: int))), [Sent ''AT+BAND=?'', Sent ''AT+DUTYTIME=?''])"
proof -
  have st: "stoi ''0'' = Inr 0"
    by (simp add: stoi_def isspace_def isdigit_def digit_val_def)
  have nn: "RAK_SUB_BAND_1 \<noteq> RAK_SUB_BAND_NONE"
    by simp
  note inst = accessor_round_trips [where m = "sim_module ''0''" and tr = "[]" and SubBand = RAK_SUB_BAND_1
      and Enable = True and Band = 0 and Delay = 0 and Mode = 0 and DR = 0 and p = Target
      and Retries = 0 and TxPwr = 0
      and d = "\<lparr>LoRaWAN_Join = RAK_JOIN_OTAA, LoRaWAN_isJoined = False, P2P_isEncryptionEnabled = False\<rparr>"]
  have r0: "sim_module ''0'' [] ''AT+RETY=?'' = (RAK3172_ERR_OK, ''0'', ''OK'')"
    by (simp add: sim_module_def str_find_def npos_def)
  from inst have a0: "\<forall>Value Status v. sim_module ''0'' [] ''AT+RETY=?'' = (RAK3172_ERR_OK, Value, Status) \<and> stoi Value = Inr v \<longrightarrow>
        fst (RAK3172_LoRaWAN_GetRetries (sim_module ''0'') (Some \<lparr>LoRaWAN_Join = RAK_JOIN_OTAA, LoRaWAN_isJoined = False, P2P_isEncryptionEnabled = False\<rparr>) Target []) = Return (RAK3172_ERR_OK, Some (word_of_int v))"
    by (elim conjE)
  from a0 r0 st have c0: "fst (RAK3172_LoRaWAN_GetRetries (sim_module ''0'') (Some \<lparr>LoRaWAN_Join = RAK_JOIN_OTAA, LoRaWAN_isJoined = False, P2P_isEncryptionEnabled = False\<rparr>) Target []) = Return (RAK3172_ERR_OK, Some (word_of_int (0 :: int)))"
    by blast
  have r1: "sim_module ''0'' [] ''AT+PNM=?'' = (RAK3172_ERR_OK, ''0'', ''OK'')"
    by (simp add: sim_module_def str_find_def npos_def)
  from inst have a1: "\<forall>Value Status v. sim_module ''0'' [] ''AT+PNM=?'' = (RAK3172_ERR_OK, Value, Status) \<and> stoi Value = Inr v \<longrightarrow>
        fst (RAK3172_LoRaWAN_GetPNM (sim_module ''0'') (Some \<lparr>LoRaWAN_Join = RAK_JOIN_OTAA, LoRaWAN_isJoined = False, P2P_isEncryptionEnabled = False\<rparr>) Target []) = Return (RAK3172_ERR_OK, Some (v \<noteq> 0))"
    by (elim conjE)
  from a1 r1 st have c1: "fst (RAK3172_LoRaWAN_GetPNM (sim_module ''0'') (Some \<lparr>LoRaWAN_Join = RAK_JOIN_OTAA, LoRaWAN_isJoined = False, P2P_isEncryptionEnabled = False\<rparr>) Target []) = Return (RAK3172_ERR_OK, Some ((0 :: int) \<noteq> 0))"
    by blast
  have r2: "sim_module ''0'' [] ''AT+CFM=?'' = (RAK3172_ERR_OK, ''0'', ''OK'')"
    by (simp add: sim_module_def str_find_def npos_def)
  from inst have a2: "\<forall>Value Status v. sim_module ''0'' [] ''AT+CFM=?'' = (RAK3172_ERR_OK, Value, Status) \<and> stoi Value = Inr v \<longrightarrow>
        fst (RAK3172_LoRaWAN_GetConfirmation (sim_module ''0'') (Some \<lparr>LoRaWAN_Join = RAK_JOIN_OTAA, LoRaWAN_isJoined = False, P2P_isEncryptionEnabled = False\<rparr>) Target []) = Return (RAK3172_ERR_OK, Some (v \<noteq> 0))"
    by (elim conjE)
  from a2 r2 st have c2: "fst (RAK3172_LoRaWAN_GetConfirmation (sim_module ''0'') (Some \<lparr>LoRaWAN_Join = RAK_JOIN_OTAA, LoRaWAN_isJoined = False, P2P_isEncryptionEnabled = False\<rparr>) Target []) = Return (RAK3172_ERR_OK, Some ((0 :: int) \<noteq> 0))"
    by blast
  have r3: "sim_module ''0'' [] ''AT+BAND=?'' = (RAK3172_ERR_OK, ''0'', ''OK'')"
    by (simp add: sim_module_def str_find_def npos_def)
  from inst have a3: "\<forall>Value Status v. sim_module ''0'' [] ''AT+BAND=?'' = (RAK3172_ERR_OK, Value, Status) \<and> stoi Value = Inr v \<longrightarrow>
        fst (RAK3172_LoRaWAN_GetBand (sim_module ''0'') (Some \<lparr>LoRaWAN_Join = RAK_JOIN_OTAA, LoRaWAN_isJoined = False, P2P_isEncryptionEnabled = False\<rparr>) Target []) = Return (RAK3172_ERR_OK, Some (v))"
    by (elim conjE)
  from a3 r3 st have c3: "fst (RAK3172_LoRaWAN_GetBand (sim_module ''0'') (Some \<lparr>LoRaWAN_Join = RAK_JOIN_OTAA, LoRaWAN_isJoined = False, P2P_isEncryptionEnabled = False\<rparr>) Target []) = Return (RAK3172_ERR_OK, Some ((0 :: int)))"
    by blast
  have r4: "sim_module ''0'' [] ''AT+DR=?'' = (RAK3172_ERR_OK, ''0'', ''OK'')"
    by (simp add: sim_module_def str_find_def npos_def)
  from inst have a4: "\<forall>Value Status v. sim_module ''0'' [] ''AT+DR=?'' = (RAK3172_ERR_OK, Value, Status) \<and> stoi Value = Inr v \<longrightarrow>
        fst (RAK3172_LoRaWAN_GetDataRate (sim_module ''0'') (Some \<lparr>LoRaWAN_Join = RAK_JOIN_OTAA, LoRaWAN_isJoined = False, P2P_isEncryptionEnabled = False\<rparr>) Target []) = Return (RAK3172_ERR_OK, Some (v))"
    by (elim conjE)
  from a4 r4 st have c4: "fst (RAK3172_LoRaWAN_GetDataRate (sim_module ''0'') (Some \<lparr>LoRaWAN_Join = RAK_JOIN_OTAA, LoRaWAN_isJoined = False, P2P_isEncryptionEnabled = False\<rparr>) Target []) = Return (RAK3172_ERR_OK, Some ((0 :: int)))"
    by blast
  have r5: "sim_module ''0'' [] ''AT+ADR=?'' = (RAK3172_ERR_OK, ''0'', ''OK'')"
    by (simp add: sim_module_def str_find_def npos_def)
  from inst have a5: "\<forall>Value Status v. sim_module ''0'' [] ''AT+ADR=?'' = (RAK3172_ERR_OK, Value, Status) \<and> stoi Value = Inr v \<longrightarrow>
        fst (RAK3172_LoRaWAN_GetADR (sim_module ''0'') (Some \<lparr>LoRaWAN_Join = RAK_JOIN_OTAA, LoRaWAN_isJoined = False, P2P_isEncryptionEnabled = False\<rparr>) Target []) = Return (RAK3172_ERR_OK, Some (v \<noteq> 0))"
    by (elim conjE)
  from a5 r5 st have c5: "fst (RAK3172_LoRaWAN_GetADR (sim_module ''0'') (Some \<lparr>LoRaWAN_Join = RAK_JOIN_OTAA, LoRaWAN_isJoined = False, P2P_isEncryptionEnabled = False\<rparr>) Target []) = Return (RAK3172_ERR_OK, Some ((0 :: int) \<noteq> 0))"
    by blast
  have r6: "sim_module ''0'' [] ''AT+NJM=?'' = (RAK3172_ERR_OK, ''0'', ''OK'')"
    by (simp add: sim_module_def str_find_def npos_def)
  from inst have a6: "\<forall>Value Status v. sim_module ''0'' [] ''AT+NJM=?'' = (RAK3172_ERR_OK, Value, Status) \<and> stoi Value = Inr v \<longrightarrow>
        fst (RAK3172_LoRaWAN_GetJoinMode (sim_module ''0'') (Some \<lparr>LoRaWAN_Join = RAK_JOIN_OTAA, LoRaWAN_isJoined = False, P2P_isEncryptionEnabled = False\<rparr>) Target []) = Return (RAK3172_ERR_OK, Some (v))"
    by (elim conjE)
  from a6 r6 st have c6: "fst (RAK3172_LoRaWAN_GetJoinMode (sim_module ''0'') (Some \<lparr>LoRaWAN_Join = RAK_JOIN_OTAA, LoRaWAN_isJoined = False, P2P_isEncryptionEnabled = False\<rparr>) Target []) = Return (RAK3172_ERR_OK, Some ((0 :: int)))"
    by blast
  have r7: "sim_module ''0'' [] ''AT+SNR=?'' = (RAK3172_ERR_OK, ''0'', ''OK'')"
    by (simp add: sim_module_def str_find_def npos_def)
  from inst have a7: "\<forall>Value Status v. sim_module ''0'' [] ''AT+SNR=?'' = (RAK3172_ERR_OK, Value, Status) \<and> stoi Value = Inr v \<longrightarrow>
        fst (RAK3172_LoRaWAN_GetSNR (sim_module ''0'') (Some \<lparr>LoRaWAN_Join = RAK_JOIN_OTAA, LoRaWAN_isJoined = False, P2P_isEncryptionEnabled = False\<rparr>) Target []) = Return (RAK3172_ERR_OK, Some (word_of_int v))"
    by (elim conjE)
  from a7 r7 st have c7: "fst (RAK3172_LoRaWAN_GetSNR (sim_module ''0'') (Some \<lparr>LoRaWAN_Join = RAK_JOIN_OTAA, LoRaWAN_isJoined = False, P2P_isEncryptionEnabled = False\<rparr>) Target []) = Return (RAK3172_ERR_OK, Some (word_of_int (0 :: int)))"
    by blast
  have r8: "sim_module ''0'' [] ''AT+RSSI=?'' = (RAK3172_ERR_OK, ''0'', ''OK'')"
    by (simp add: sim_module_def str_find_def npos_def)
  from inst have a8: "\<forall>Value Status v. sim_module ''0'' [] ''AT+RSSI=?'' = (RAK3172_ERR_OK, Value, Status) \<and> stoi Value = Inr v \<longrightarrow>
        fst (RAK3172_LoRaWAN_GetRSSI (sim_module ''0'') (Some \<lparr>LoRaWAN_Join = RAK_JOIN_OTAA, LoRaWAN_isJoined = False, P2P_isEncryptionEnabled = False\<rparr>) Target []) = Return (RAK3172_ERR_OK, Some (sint (word_of_int v :: 8 word)))"
    by (elim conjE)
  from a8 r8 st have c8: "fst (RAK3172_LoRaWAN_GetRSSI (sim_module ''0'') (Some \<lparr>LoRaWAN_Join = RAK_JOIN_OTAA, LoRaWAN_isJoined = False, P2P_isEncryptionEnabled = False\<rparr>) Target []) = Return (RAK3172_ERR_OK, Some (sint (word_of_int (0 :: int) :: 8 word)))"
    by blast
  from inst have sb0: "RAK_SUB_BAND_1 \<noteq> RAK_SUB_BAND_NONE \<longrightarrow>
      (\<exists>cs. snd (RAK3172_LoRaWAN_SetSubBand (sim_module ''0'') (Some \<lparr>LoRaWAN_Join = RAK_JOIN_OTAA, LoRaWAN_isJoined = False, P2P_isEncryptionEnabled = False\<rparr>) RAK_SUB_BAND_1 []) = [] @ Sent ''AT+BAND=?'' # cs \<and> length cs \<le> 1)"
    by (elim conjE)
  with nn have sb: "(\<exists>cs. snd (RAK3172_LoRaWAN_SetSubBand (sim_module ''0'') (Some \<lparr>LoRaWAN_Join = RAK_JOIN_OTAA, LoRaWAN_isJoined = False, P2P_isEncryptionEnabled = False\<rparr>) RAK_SUB_BAND_1 []) = [] @ Sent ''AT+BAND=?'' # cs \<and> length cs \<le> 1)"
    by blast
  have rd: "sim_module ''0'' ([] @ [Sent ''AT+BAND=?'']) ''AT+DUTYTIME=?'' = (RAK3172_ERR_OK, ''0'', ''OK'')"
    by (simp add: sim_module_def str_find_def npos_def)
  from inst have gd0: "RAK3172_LoRaWAN_GetDuty (sim_module ''0'') (Some \<lparr>LoRaWAN_Join = RAK_JOIN_OTAA, LoRaWAN_isJoined = False, P2P_isEncryptionEnabled = False\<rparr>) Target [] =
       (case sim_module ''0'' [] ''AT+BAND=?'' of
          (Error, Value, Status) \<Rightarrow>
            if Error \<noteq> RAK3172_ERR_OK then (Return (Error, None), [] @ [Sent ''AT+BAND=?''])
            else (case stoi Value of
                    Inl e \<Rightarrow> (Throw e, [] @ [Sent ''AT+BAND=?''])
                  | Inr Band \<Rightarrow>
                      if Band \<noteq> RAK_BAND_EU868 \<and> Band \<noteq> RAK_BAND_RU864 \<and> Band \<noteq> RAK_BAND_EU433
                      then (Return (RAK3172_ERR_INVALID_ARG, None), [] @ [Sent ''AT+BAND=?''])
                      else (case sim_module ''0'' ([] @ [Sent ''AT+BAND=?'']) ''AT+DUTYTIME=?'' of
                              (Error2, Value2, Status2) \<Rightarrow>
                                (if Error2 \<noteq> RAK3172_ERR_OK then Return (Error2, None)
                                 else (case stoi Value2 of
                                         Inl e \<Rightarrow> Throw e
                                       | Inr v \<Rightarrow>
                                           if Target = NULL then Fault
                                           else Return (RAK3172_ERR_OK, Some (word_of_int v))),
                                 [] @ [Sent ''AT+BAND=?'', Sent ''AT+DUTYTIME=?'']))))"
    by (elim conjE)
  have gd: "RAK3172_LoRaWAN_GetDuty (sim_module ''0'') (Some \<lparr>LoRaWAN_Join = RAK_JOIN_OTAA, LoRaWAN_isJoined = False, P2P_isEncryptionEnabled = False\<rparr>) Target [] =
     (Return (RAK3172_ERR_OK, Some (word_of_int (0 :: int))), [Sent ''AT+BAND=?'', Sent ''AT+DUTYTIME=?''])"
    unfolding gd0 by (simp add: r3 rd [simplified] st)
  from st r0 c0 r1 c1 r2 c2 r3 c3 r4 c4 r5 c5 r6 c6 r7 c7 r8 c8 nn sb rd gd show ?thesis
    by blast
qed

text \<open>
  C6 as the specification words it does not hold: these accessors do not make exactly
  one round trip. SetRetries, SetTxPwr, SetSubBand, GetSubBand and GetDuty hand two
  commands to the Command Engine; SetSubBand with NONE, a getter with a \<^verbatim>\<open>NULL\<close>
  pointer and SetDataRate beyond 7 hand none.
\<close>

theorem accessors_other_round_trip_counts:
  "snd (RAK3172_LoRaWAN_SetRetries (sim_module ''4'') (Some \<lparr>LoRaWAN_Join = RAK_JOIN_OTAA, LoRaWAN_isJoined = False, P2P_isEncryptionEnabled = False\<rparr>) 3 []) = [Sent ''AT+CFM=1'', Sent ''AT+RETY=3''] \<and>
   snd (RAK3172_LoRaWAN_SetTxPwr (sim_module ''4'') (Some \<lparr>LoRaWAN_Join = RAK_JOIN_OTAA, LoRaWAN_isJoined = False, P2P_isEncryptionEnabled = False\<rparr>) 7 []) = [Sent ''AT+BAND=?'', Sent ''AT+TXP=4''] \<and>
   snd (RAK3172_LoRaWAN_SetSubBand (sim_module ''5'') (Some \<lparr>LoRaWAN_Join = RAK_JOIN_OTAA, LoRaWAN_isJoined = False, P2P_isEncryptionEnabled = False\<rparr>) RAK_SUB_BAND_NONE []) = [] \<and>
   snd (RAK3172_LoRaWAN_SetSubBand (sim_module ''5'') (Some \<lparr>LoRaWAN_Join = RAK_JOIN_OTAA, LoRaWAN_isJoined = False, P2P_isEncryptionEnabled = False\<rparr>) RAK_SUB_BAND_2 []) = [Sent ''AT+BAND=?'', Sent ''AT+MASK=0002''] \<and>
   snd (RAK3172_LoRaWAN_GetSubBand (sim_module ''5'') (Some \<lparr>LoRaWAN_Join = RAK_JOIN_OTAA, LoRaWAN_isJoined = False, P2P_isEncryptionEnabled = False\<rparr>) Target []) = [Sent ''AT+BAND=?'', Sent ''AT+MASK=?''] \<and>
   snd (RAK3172_LoRaWAN_GetDuty (sim_module ''4'') (Some \<lparr>LoRaWAN_Join = RAK_JOIN_OTAA, LoRaWAN_isJoined = False, P2P_isEncryptionEnabled = False\<rparr>) Target []) = [Sent ''AT+BAND=?'', Sent ''AT+DUTYTIME=?''] \<and>
   snd (RAK3172_LoRaWAN_GetRetries (sim_module ''4'') (Some \<lparr>LoRaWAN_Join = RAK_JOIN_OTAA, LoRaWAN_isJoined = False, P2P_isEncryptionEnabled = False\<rparr>) NULL []) = [] \<and>
   snd (RAK3172_LoRaWAN_SetDataRate (sim_module ''4'') (Some \<lparr>LoRaWAN_Join = RAK_JOIN_OTAA, LoRaWAN_isJoined = False, P2P_isEncryptionEnabled = False\<rparr>) 8 []) = []"
proof -
  have band4: "RAK3172_LoRaWAN_GetBand (sim_module ''4'') (Some \<lparr>LoRaWAN_Join = RAK_JOIN_OTAA, LoRaWAN_isJoined = False, P2P_isEncryptionEnabled = False\<rparr>) Target [] =
      (Return (RAK3172_ERR_OK, Some RAK_BAND_EU868), [Sent ''AT+BAND=?''])"
    by (simp add: RAK3172_LoRaWAN_GetBand_def SendCommand_Some sim_module_def stoi_def isspace_def
        isdigit_def digit_val_def)
  have band5: "RAK3172_LoRaWAN_GetBand (sim_module ''5'') (Some \<lparr>LoRaWAN_Join = RAK_JOIN_OTAA, LoRaWAN_isJoined = False, P2P_isEncryptionEnabled = False\<rparr>) Target [] =
      (Return (RAK3172_ERR_OK, Some RAK_BAND_US915), [Sent ''AT+BAND=?''])"
    by (simp add: RAK3172_LoRaWAN_GetBand_def SendCommand_Some sim_module_def stoi_def isspace_def
        isdigit_def digit_val_def)
  have c1: "snd (RAK3172_LoRaWAN_SetRetries (sim_module ''4'') (Some \<lparr>LoRaWAN_Join = RAK_JOIN_OTAA, LoRaWAN_isJoined = False, P2P_isEncryptionEnabled = False\<rparr>) 3 []) = [Sent ''AT+CFM=1'', Sent ''AT+RETY=3'']"
    by (simp add: RAK3172_LoRaWAN_SetRetries_def send_cmd_Some sim_module_def str_find_def npos_def
        to_string_def dec_of_nat.simps word_less_nat_alt)
  have c2: "snd (RAK3172_LoRaWAN_SetTxPwr (sim_module ''4'') (Some \<lparr>LoRaWAN_Join = RAK_JOIN_OTAA, LoRaWAN_isJoined = False, P2P_isEncryptionEnabled = False\<rparr>) 7 []) = [Sent ''AT+BAND=?'', Sent ''AT+TXP=4'']"
    by (simp add: RAK3172_LoRaWAN_SetTxPwr_def band4 send_cmd_Some to_string_def dec_of_nat.simps)
  have c3: "snd (RAK3172_LoRaWAN_SetSubBand (sim_module ''5'') (Some \<lparr>LoRaWAN_Join = RAK_JOIN_OTAA, LoRaWAN_isJoined = False, P2P_isEncryptionEnabled = False\<rparr>) RAK_SUB_BAND_NONE []) = []"
    by (simp add: RAK3172_LoRaWAN_SetSubBand_def)
  have c4: "snd (RAK3172_LoRaWAN_SetSubBand (sim_module ''5'') (Some \<lparr>LoRaWAN_Join = RAK_JOIN_OTAA, LoRaWAN_isJoined = False, P2P_isEncryptionEnabled = False\<rparr>) RAK_SUB_BAND_2 []) = [Sent ''AT+BAND=?'', Sent ''AT+MASK=0002'']"
    by (simp add: RAK3172_LoRaWAN_SetSubBand_def band5 send_cmd_Some sprintf_hex_def hex_of_nat.simps hexdigit_def
        Let_def replicate_numeral)
  have c5: "snd (RAK3172_LoRaWAN_GetSubBand (sim_module ''5'') (Some \<lparr>LoRaWAN_Join = RAK_JOIN_OTAA, LoRaWAN_isJoined = False, P2P_isEncryptionEnabled = False\<rparr>) Target []) = [Sent ''AT+BAND=?'', Sent ''AT+MASK=?'']"
    by (simp add: RAK3172_LoRaWAN_GetSubBand_def band5 SendCommand_Some sim_module_def stoi_def isspace_def
        isdigit_def digit_val_def)
  have c6: "snd (RAK3172_LoRaWAN_GetDuty (sim_module ''4'') (Some \<lparr>LoRaWAN_Join = RAK_JOIN_OTAA, LoRaWAN_isJoined = False, P2P_isEncryptionEnabled = False\<rparr>) Target []) = [Sent ''AT+BAND=?'', Sent ''AT+DUTYTIME=?'']"
    by (simp add: RAK3172_LoRaWAN_GetDuty_def band4 SendCommand_Some sim_module_def stoi_def isspace_def
        isdigit_def digit_val_def str_find_def npos_def)
  have c7: "snd (RAK3172_LoRaWAN_GetRetries (sim_module ''4'') (Some \<lparr>LoRaWAN_Join = RAK_JOIN_OTAA, LoRaWAN_isJoined = False, P2P_isEncryptionEnabled = False\<rparr>) NULL []) = []"
    by (simp add: RAK3172_LoRaWAN_GetRetries_def)
  have c8: "snd (RAK3172_LoRaWAN_SetDataRate (sim_module ''4'') (Some \<lparr>LoRaWAN_Join = RAK_JOIN_OTAA, LoRaWAN_isJoined = False, P2P_isEncryptionEnabled = False\<rparr>) 8 []) = []"
    by (simp add: RAK3172_LoRaWAN_SetDataRate_def)
  from c1 c2 c3 c4 c5 c6 c7 c8 show ?thesis
    by blast
qed

section \<open>P2P encryption\<close>

text \<open>
  C9: \<^verbatim>\<open>RAK3172_P2P_EnableEncryption\<close> returns \<^verbatim>\<open>RAK3172_ERR_INVALID_ARG\<close> for a
  \<^verbatim>\<open>NULL\<close> key before any I/O. For a key that is not \<^verbatim>\<open>NULL\<close> it first sends
  \<^verbatim>\<open>AT+ENCRY=1\<close> and then, when that command succeeded, \<^verbatim>\<open>AT+ENCKEY=\<close> followed by
  the first 8 bytes of the key as 16 lower-case hexadecimal characters, and nothing else.
\<close>

theorem enable_encryption_commands:
  "RAK3172_P2P_EnableEncryption m p_Device None tr = (RAK3172_ERR_INVALID_ARG, p_Device, tr) \<and>
   snd (snd (RAK3172_P2P_EnableEncryption m (Some d) (Some Key) tr)) =
     (if fst (m tr ''AT+ENCRY=1'') = RAK3172_ERR_OK
      then tr @ [Sent ''AT+ENCRY=1'', Sent (''AT+ENCKEY='' @ encode_loop False Key 8)]
      else tr @ [Sent ''AT+ENCRY=1'']) \<and>
   length (encode_loop False Key 8) = 16 \<and>
   set (encode_loop False Key 8) \<subseteq> set ''0123456789abcdef'' \<and>
   hex_decode (encode_loop False Key 8) = Some (map Key [0 ..< 8])"
proof -
  have null: "RAK3172_P2P_EnableEncryption m p_Device None tr = (RAK3172_ERR_INVALID_ARG, p_Device, tr)"
    by (simp add: RAK3172_P2P_EnableEncryption_def)
  have cmds: "snd (snd (RAK3172_P2P_EnableEncryption m (Some d) (Some Key) tr)) =
     (if fst (m tr ''AT+ENCRY=1'') = RAK3172_ERR_OK
      then tr @ [Sent ''AT+ENCRY=1'', Sent (''AT+ENCKEY='' @ encode_loop False Key 8)]
      else tr @ [Sent ''AT+ENCRY=1''])"
    by (simp add: RAK3172_P2P_EnableEncryption_def send_cmd_Some to_string_1 Let_def)
  have len: "length (encode_loop False Key 8) = 16"
    by (simp add: encode_loop_length)
  from null cmds len show ?thesis
    by (simp only: encode_loop_lower_alphabet encode_loop_decode simp_thms)
qed

theorem enable_encryption_commands_witness:
  "RAK3172_P2P_EnableEncryption (sim_module ''4'') None None [] = (RAK3172_ERR_INVALID_ARG, None, []) \<and>
   snd (snd (RAK3172_P2P_EnableEncryption (sim_module ''4'')
      (Some \<lparr>LoRaWAN_Join = RAK_JOIN_OTAA, LoRaWAN_isJoined = False, P2P_isEncryptionEnabled = False\<rparr>)
      (Some (\<lambda>i. [0x0A, 0x1B, 0x2C, 0x3D, 0x4E, 0x5F, 0x70, 0x81, 0x92] ! i)) [])) =
     [Sent ''AT+ENCRY=1'', Sent ''AT+ENCKEY=0a1b2c3d4e5f7081'']"
proof -
  note inst = enable_encryption_commands [where m = "sim_module ''4''" and tr = "[]"
      and d = "\<lparr>LoRaWAN_Join = RAK_JOIN_OTAA, LoRaWAN_isJoined = False, P2P_isEncryptionEnabled = False\<rparr>"
      and Key = "\<lambda>i. [0x0A, 0x1B, 0x2C, 0x3D, 0x4E, 0x5F, 0x70, 0x81, 0x92] ! i" and p_Device = None]
  have e: "encode_loop False (\<lambda>i. [0x0A, 0x1B, 0x2C, 0x3D, 0x4E, 0x5F, 0x70, 0x81, 0x92 :: 8 word] ! i) 8 = ''0a1b2c3d4e5f7081''"
    by (simp add: encode_loop_numeral sprintf_hex_byte hexdigit_def)
  have ok: "fst (sim_module ''4'' [] ''AT+ENCRY=1'') = RAK3172_ERR_OK"
    by (simp add: sim_module_def)
  from inst [THEN conjunct1] inst [THEN conjunct2, THEN conjunct1] show ?thesis
    by (simp add: e ok)
qed

text \<open>
  C10: \<^verbatim>\<open>RAK3172_P2P_EnableEncryption\<close> sets \<^verbatim>\<open>P2P.isEncryptionEnabled\<close> once
  \<^verbatim>\<open>AT+ENCRY=1\<close> has succeeded and before it sends the key; when the key command then
  fails, the function returns that error and the flag stays set.
\<close>

theorem enable_encryption_not_atomic:
  assumes "fst (m tr ''AT+ENCRY=1'') = RAK3172_ERR_OK"
    and "fst (m (tr @ [Sent ''AT+ENCRY=1'']) (''AT+ENCKEY='' @ encode_loop False Key 8)) = Error"
  shows "RAK3172_P2P_EnableEncryption m (Some d) (Some Key) tr =
           (Error, Some (d\<lparr>P2P_isEncryptionEnabled := True\<rparr>),
            tr @ [Sent ''AT+ENCRY=1'', Sent (''AT+ENCKEY='' @ encode_loop False Key 8)])"
  using assms
  by (simp add: RAK3172_P2P_EnableEncryption_def send_cmd_Some to_string_1 Let_def)

theorem enable_encryption_not_atomic_witness:
  "RAK3172_P2P_EnableEncryption (reject_module ''AT+ENCKEY'')
     (Some \<lparr>LoRaWAN_Join = RAK_JOIN_OTAA, LoRaWAN_isJoined = False, P2P_isEncryptionEnabled = False\<rparr>)
     (Some (\<lambda>i. [0x0A, 0x1B, 0x2C, 0x3D, 0x4E, 0x5F, 0x70, 0x81, 0x92] ! i)) [] =
   (RAK3172_ERR_INVALID_RESPONSE,
    Some \<lparr>LoRaWAN_Join = RAK_JOIN_OTAA, LoRaWAN_isJoined = False, P2P_isEncryptionEnabled = True\<rparr>,
    [Sent ''AT+ENCRY=1'', Sent ''AT+ENCKEY=0a1b2c3d4e5f7081''])"
proof -
  have e: "encode_loop False (\<lambda>i. [0x0A, 0x1B, 0x2C, 0x3D, 0x4E, 0x5F, 0x70, 0x81, 0x92 :: 8 word] ! i) 8 = ''0a1b2c3d4e5f7081''"
    by (simp add: encode_loop_numeral sprintf_hex_byte hexdigit_def)
  have h1: "fst (reject_module ''AT+ENCKEY'' [] ''AT+ENCRY=1'') = RAK3172_ERR_OK"
    by (simp add: reject_module_def)
  have h2: "fst (reject_module ''AT+ENCKEY'' ([] @ [Sent ''AT+ENCRY=1''])
             (''AT+ENCKEY='' @ encode_loop False (\<lambda>i. [0x0A, 0x1B, 0x2C, 0x3D, 0x4E, 0x5F, 0x70, 0x81, 0x92 :: 8 word] ! i) 8)) = RAK3172_ERR_INVALID_RESPONSE"
    by (simp add: reject_module_def)
  from enable_encryption_not_atomic [OF h1 h2,
      where d = "\<lparr>LoRaWAN_Join = RAK_JOIN_OTAA, LoRaWAN_isJoined = False, P2P_isEncryptionEnabled = False\<rparr>"]
  show ?thesis
    by (simp add: e)
qed

end
